theory Spec2Isabelle
  imports Complex_Main "HOL-Library.AList" "HOL-Library.Sublist"
begin

section \<open>Rating to stat formula analyzer (tools/analyze\_ootp\_data.py)\<close>

subsection \<open>Column names and Python exceptions\<close>

definition INPUT_COLS :: "string list" where
  "INPUT_COLS = [''stuff'', ''control'', ''hra'', ''movement'', ''babip'']"

definition OUTPUT_COLS :: "string list" where
  "OUTPUT_COLS = [''hits allowed'', ''hr'', ''bb'', ''k'', ''ip'']"

text \<open>
  The exceptions the analyzer can meet. None of them is caught anywhere in the source, so
  each one ends the run: a function that can raise returns \<open>error + 'a\<close>.
\<close>

datatype error =
    FileNotFoundError
  | KeyError "string list"
  | ValueError
  | IndexError
  | OverflowError
  | ZeroDivisionError

subsection \<open>Data frames\<close>

text \<open>
  A float of the tables is a finite number or one of the two infinities (\<^verbatim>\<open>inf\<close>,
  \<^verbatim>\<open>-inf\<close>); rounding is not modelled, a finite float is a real. A float that may
  also be NaN is an \<open>option\<close>, with \<open>None\<close> for NaN.
\<close>

datatype float = Fin real | PosInf | NegInf

fun isfinite :: "float \<Rightarrow> bool" where
  "isfinite (Fin x) = True"
| "isfinite PosInf = False"
| "isfinite NegInf = False"

fun as_real :: "float \<Rightarrow> real" where
  "as_real (Fin x) = x"
| "as_real PosInf = 0"
| "as_real NegInf = 0"

text \<open>The order of the floats, for \<^verbatim>\<open>min\<close> and \<^verbatim>\<open>max\<close>.\<close>

fun float_le :: "float \<Rightarrow> float \<Rightarrow> bool" where
  "float_le NegInf b = True"
| "float_le a PosInf = True"
| "float_le (Fin x) (Fin y) = (x \<le> y)"
| "float_le (Fin x) NegInf = False"
| "float_le PosInf (Fin y) = False"
| "float_le PosInf NegInf = False"

definition float_min :: "float \<Rightarrow> float \<Rightarrow> float" where
  "float_min a b = (if float_le a b then a else b)"

definition float_max :: "float \<Rightarrow> float \<Rightarrow> float" where
  "float_max a b = (if float_le a b then b else a)"

text \<open>
  A cell as \<^verbatim>\<open>pd.read_csv\<close> delivers it: a missing value, a finite number, an
  infinity (\<open>Infinity True\<close> is \<^verbatim>\<open>inf\<close>, \<open>Infinity False\<close> is \<^verbatim>\<open>-inf\<close>), or the
  text of a cell of a column that is not numeric throughout.
\<close>

datatype cell = NaN | Num real | Infinity bool | Str string

record 'a frame =
  columns :: "string list"
  rows :: "'a list list"

text \<open>
  What the analyzer takes from its libraries, as parameters of the model:
  \<^item> \<open>parse_number\<close>: the conversion of one text cell by \<^verbatim>\<open>pd.to_numeric\<close> with
    \<^verbatim>\<open>errors='coerce'\<close> (\<open>None\<close> where the text is no number; the text may be
    that of an infinity);
  \<^item> \<open>lstsq\<close>: the least-squares solver under \<^verbatim>\<open>LinearRegression\<close>
    (\<^verbatim>\<open>scipy.linalg.lstsq\<close>), from the centred design matrix and targets to the
    coefficients;
  \<^item> \<open>ridge_solve\<close>: the solver under \<^verbatim>\<open>Ridge\<close>, from the penalty, the centred
    design matrix and targets to the coefficients;
  \<^item> \<open>corr\<close>: \<^verbatim>\<open>Series.corr\<close>, Pearson's correlation (NaN where undefined).
  The solvers are only reached with data that passed the validation of the estimators,
  which is finite, so they take reals.
\<close>

record library =
  parse_number :: "string \<Rightarrow> float option"
  lstsq :: "real list list \<Rightarrow> real list \<Rightarrow> real list"
  ridge_solve :: "real \<Rightarrow> real list list \<Rightarrow> real list \<Rightarrow> real list"
  corr :: "float list \<Rightarrow> float list \<Rightarrow> real option"

subsection \<open>The table loader\<close>

text \<open>
  \<^verbatim>\<open>
  self.df = pd.read_csv(csv_path)
  self.df = self.df.dropna(how='all')
  self.df = self.df.apply(pd.to_numeric, errors='coerce')
  self.df = self.df.dropna()
  \<close>
  \<^verbatim>\<open>dropna(how='all')\<close> removes the rows whose cells are all missing;
  \<^verbatim>\<open>to_numeric\<close> is applied to every column; \<^verbatim>\<open>dropna()\<close> removes every row that
  still has a NaN. What remains has a float other than NaN in every cell; an infinity
  is no missing value and stays.
\<close>

definition dropna_all :: "cell frame \<Rightarrow> cell frame" where
  "dropna_all f = \<lparr>columns = columns f,
     rows = filter (\<lambda>r. \<not> list_all (\<lambda>c. c = NaN) r) (rows f)\<rparr>"

definition to_numeric :: "(string \<Rightarrow> float option) \<Rightarrow> cell \<Rightarrow> float option" where
  "to_numeric parse c =
     (case c of NaN \<Rightarrow> None | Num x \<Rightarrow> Some (Fin x)
      | Infinity b \<Rightarrow> Some (if b then PosInf else NegInf) | Str s \<Rightarrow> parse s)"

definition apply_to_numeric :: "(string \<Rightarrow> float option) \<Rightarrow> cell frame \<Rightarrow> float option frame" where
  "apply_to_numeric parse f = \<lparr>columns = columns f,
     rows = map (map (to_numeric parse)) (rows f)\<rparr>"

definition dropna :: "float option frame \<Rightarrow> float frame" where
  "dropna f = \<lparr>columns = columns f,
     rows = map (map the) (filter (list_all (\<lambda>c. c \<noteq> None)) (rows f))\<rparr>"

definition load_table :: "library \<Rightarrow> cell frame \<Rightarrow> float frame" where
  "load_table L t = dropna (apply_to_numeric (parse_number L) (dropna_all t))"

text \<open>A row that the loader drops: all cells missing, or some cell that is not a number.\<close>

definition malformed :: "(string \<Rightarrow> float option) \<Rightarrow> cell list \<Rightarrow> bool" where
  "malformed parse r \<longleftrightarrow>
     list_all (\<lambda>c. c = NaN) r \<or> list_ex (\<lambda>c. to_numeric parse c = None) r"

subsection \<open>Selecting columns\<close>

fun index_of :: "'a \<Rightarrow> 'a list \<Rightarrow> nat option" where
  "index_of x [] = None"
| "index_of x (y # ys) = (if x = y then Some 0 else map_option Suc (index_of x ys))"

text \<open>
  \<^verbatim>\<open>df[cols].values\<close>: the rows restricted to the named columns, in the order asked;
  KeyError with the names that are no column. A frame is rectangular (every row has one
  cell per column), so the index of a column is within each row.
\<close>

definition frame_values :: "'a frame \<Rightarrow> string list \<Rightarrow> error + 'a list list" where
  "frame_values f cs =
     (if list_all (\<lambda>c. c \<in> set (columns f)) cs
      then Inr (map (\<lambda>r. map (\<lambda>c. r ! the (index_of c (columns f))) cs) (rows f))
      else Inl (KeyError (filter (\<lambda>c. c \<notin> set (columns f)) cs)))"

text \<open>\<^verbatim>\<open>df[col].values\<close>: one column as a vector.\<close>

definition series_values :: "'a frame \<Rightarrow> string \<Rightarrow> error + 'a list" where
  "series_values f c =
     (case index_of c (columns f) of
        None \<Rightarrow> Inl (KeyError [c])
      | Some i \<Rightarrow> Inr (map (\<lambda>r. r ! i) (rows f)))"

subsection \<open>Vectors, matrices and the library's estimators\<close>

text \<open>
  A numpy vector is a list, a matrix the list of its rows: of floats as they come from
  the table, of reals once validated.
\<close>

definition reals :: "float list \<Rightarrow> real list" where
  "reals v = map as_real v"


definition dot :: "real list \<Rightarrow> real list \<Rightarrow> real" where
  "dot x y = sum_list (map2 (*) x y)"

definition mean :: "real list \<Rightarrow> real" where
  "mean xs = sum_list xs / real (length xs)"

definition ncols :: "'a list list \<Rightarrow> nat" where
  "ncols X = (case X of [] \<Rightarrow> 0 | r # _ \<Rightarrow> length r)"

definition col_means :: "real list list \<Rightarrow> real list" where
  "col_means X = map (\<lambda>j. mean (map (\<lambda>r. r ! j) X)) [0..<ncols X]"

definition center_rows :: "real list list \<Rightarrow> real list list" where
  "center_rows X = map (\<lambda>r. map2 (-) r (col_means X)) X"

definition center :: "real list \<Rightarrow> real list" where
  "center y = map (\<lambda>v. v - mean y) y"

record model =
  coef :: "real list"
  intercept :: "real"

text \<open>
  Input validation of the estimators and metrics (\<^verbatim>\<open>check_X_y\<close>, \<^verbatim>\<open>check_array\<close>):
  ValueError unless there is at least one sample and one feature, every entry is finite
  (\<^verbatim>\<open>Input contains infinity\<close> otherwise; a NaN cannot occur, the loader dropped its
  row), and there are as many targets as samples. It asks nothing else about the number
  of rows.
\<close>

definition check_array :: "float list list \<Rightarrow> bool" where
  "check_array X \<longleftrightarrow> X \<noteq> [] \<and> ncols X \<noteq> 0 \<and> list_all (list_all isfinite) X"

definition check_X_y :: "float list list \<Rightarrow> float list \<Rightarrow> bool" where
  "check_X_y X y \<longleftrightarrow> check_array X \<and> list_all isfinite y \<and> length y = length X"

text \<open>
  \<^verbatim>\<open>LinearRegression().fit(X, y)\<close>: centre the columns of \<open>X\<close> and \<open>y\<close>, solve the
  least-squares problem on the centred data, and set the intercept from the means.
\<close>

definition LinearRegression_fit :: "library \<Rightarrow> float list list \<Rightarrow> float list \<Rightarrow> error + model" where
  "LinearRegression_fit L X y =
     (if \<not> check_X_y X y then Inl ValueError
      else let w = lstsq L (center_rows (map reals X)) (center (reals y))
           in Inr \<lparr>coef = w,
                   intercept = mean (reals y) - dot (col_means (map reals X)) w\<rparr>)"

text \<open>\<^verbatim>\<open>Ridge(alpha).fit(X, y)\<close>: the same, with the penalised solver.\<close>

definition Ridge_fit :: "library \<Rightarrow> real \<Rightarrow> float list list \<Rightarrow> float list \<Rightarrow> error + model" where
  "Ridge_fit L alpha X y =
     (if \<not> check_X_y X y then Inl ValueError
      else let w = ridge_solve L alpha (center_rows (map reals X)) (center (reals y))
           in Inr \<lparr>coef = w,
                   intercept = mean (reals y) - dot (col_means (map reals X)) w\<rparr>)"

text \<open>
  \<^verbatim>\<open>model.predict(X)\<close> is \<^verbatim>\<open>X @ coef_ + intercept_\<close>; ValueError where \<open>X\<close> does not
  pass the validation or a row has not as many entries as there are coefficients.
\<close>

definition predict :: "model \<Rightarrow> float list list \<Rightarrow> error + real list" where
  "predict m X =
     (if \<not> check_array X \<or> list_ex (\<lambda>r. length r \<noteq> length (coef m)) X then Inl ValueError
      else Inr (map (\<lambda>r. dot r (coef m) + intercept m) (map reals X)))"

text \<open>
  \<^verbatim>\<open>r2_score(y_true, y_pred)\<close>: ValueError unless the targets are finite, at least one,
  and as many as the predictions; NaN with fewer than two samples; 1 where the residual
  sum of squares is zero; 0 where only the total sum of squares is zero; otherwise
  \<open>1 - SS_res / SS_tot\<close>. The predictions are values of a fitted model on validated
  data, which are reals.
\<close>

definition r2_score :: "float list \<Rightarrow> real list \<Rightarrow> error + real option" where
  "r2_score y y_pred =
     (if y = [] \<or> \<not> list_all isfinite y \<or> length y_pred \<noteq> length y then Inl ValueError
      else if length y_pred < 2 then Inr None
      else let y_true = reals y;
               numerator = (\<Sum>(t, p) \<leftarrow> zip y_true y_pred. (t - p)\<^sup>2);
               denominator = (\<Sum>t \<leftarrow> y_true. (t - mean y_true)\<^sup>2)
           in Inr (Some (if numerator = 0 then 1
                         else if denominator = 0 then 0
                         else 1 - numerator / denominator)))"

definition mean_absolute_error :: "float list \<Rightarrow> real list \<Rightarrow> error + real" where
  "mean_absolute_error y y_pred =
     (if y = [] \<or> \<not> list_all isfinite y \<or> length y_pred \<noteq> length y then Inl ValueError
      else Inr ((\<Sum>(t, p) \<leftarrow> zip (reals y) y_pred. \<bar>t - p\<bar>) / real (length y)))"

text \<open>
  \<^verbatim>\<open>PolynomialFeatures(degree, include_bias=False).fit_transform(X)\<close>: for each row
  the monomials of degree 1 to \<open>degree\<close>, each degree in the order of
  \<^verbatim>\<open>combinations_with_replacement\<close>.
\<close>

fun monomials :: "nat \<Rightarrow> real list \<Rightarrow> real list" where
  "monomials 0 xs = [1]"
| "monomials (Suc k) [] = []"
| "monomials (Suc k) (x # xs) = map (\<lambda>m. x * m) (monomials k (x # xs)) @ monomials (Suc k) xs"

definition poly_row :: "nat \<Rightarrow> real list \<Rightarrow> real list" where
  "poly_row degree r = concat (map (\<lambda>k. monomials k r) [1..<Suc degree])"

definition PolynomialFeatures_fit_transform :: "nat \<Rightarrow> float list list \<Rightarrow> error + float list list" where
  "PolynomialFeatures_fit_transform degree X =
     (if \<not> check_array X then Inl ValueError
      else Inr (map (\<lambda>r. map Fin (poly_row degree (reals r))) X))"

subsection \<open>Number formatting\<close>

text \<open>
  Python's \<^verbatim>\<open>f"{x:.Nf}"\<close>: the value rounded to \<open>N\<close> decimals (ties to even), a
  minus sign for a negative value, at least one digit before the point.
\<close>

definition digit :: "nat \<Rightarrow> char" where
  "digit d = ''0123456789'' ! d"

fun digits :: "nat \<Rightarrow> nat \<Rightarrow> string" where
  "digits 0 n = []"
| "digits (Suc k) n = digits k (n div 10) @ [digit (n mod 10)]"

function decimal :: "nat \<Rightarrow> string" where
  "decimal n = (if n < 10 then [digit n] else decimal (n div 10) @ [digit (n mod 10)])"
  by pat_completeness auto
termination
  by (relation "measure id") auto

declare decimal.simps [simp del]

definition round_half_even :: "real \<Rightarrow> nat" where
  "round_half_even r =
     (let f = nat \<lfloor>r\<rfloor>; frac = r - real f
      in if frac < 1 / 2 then f
         else if 1 / 2 < frac then f + 1
         else if even f then f else f + 1)"

definition format_f :: "nat \<Rightarrow> real \<Rightarrow> string" where
  "format_f p x =
     (let n = round_half_even (\<bar>x\<bar> * 10 ^ p)
      in (if x < 0 then ''-'' else []) @ decimal (n div 10 ^ p)
         @ (if p = 0 then [] else ''.'' @ digits p (n mod 10 ^ p)))"

fun join :: "string \<Rightarrow> string list \<Rightarrow> string" where
  "join sep [] = []"
| "join sep [t] = t"
| "join sep (t # u # ts) = t @ sep @ join sep (u # ts)"

subsection \<open>The analyzer\<close>

text \<open>
  Standard output is a list of lines, one constructor for each \<^verbatim>\<open>print\<close> of the
  source, carrying the values it interpolates (the layout of the text is not modelled).
\<close>

datatype line =
    Loaded nat
  | InputRanges
  | Range string "float option" "float option"
  | Blank
  | Rule
  | Title string
  | Skipping string
  | Analyzing string
  | LinearModel "real option" real
  | FormulaLine string
  | PolynomialModel "real option" real
  | PolynomialBetter "real option"
  | LinearSufficient "real option"
  | EffectsHeader string
  | Effect string real bool "real option"
  | SummaryNote
  | SummaryFormula string "real option"
  | TableHeader
  | TableRow string real "real list"
  | PredictionHeader "float list"
  | Prediction string real

record result =
  stat :: string
  r2 :: "real option"
  mae :: real
  formula :: string

text \<open>
  The object's fields. The two dictionaries are association lists in insertion order
  (\<^verbatim>\<open>print_summary\<close> iterates over one): assigning to a key that is present replaces
  its value in place, a new key is appended, which is \<^const>\<open>AList.update\<close>.
\<close>

record analyzer =
  df :: "float frame"
  formulas :: "(string \<times> string) list"
  models :: "(string \<times> model) list"

definition min_of :: "float list \<Rightarrow> float option" where
  "min_of xs = (case xs of [] \<Rightarrow> None | x # r \<Rightarrow> Some (fold float_min r x))"

definition max_of :: "float list \<Rightarrow> float option" where
  "max_of xs = (case xs of [] \<Rightarrow> None | x # r \<Rightarrow> Some (fold float_max r x))"

text \<open>
  \<^verbatim>\<open>
  def __init__(self, csv_path):
      self.df = pd.read_csv(csv_path)
      self.df = self.df.dropna(how='all')
      self.df = self.df.apply(pd.to_numeric, errors='coerce')
      self.df = self.df.dropna()
      self.formulas = {}
      self.models = {}
      print(f"Loaded {len(self.df)} rows of data\n")
      print("Input ranges:")
      for col in INPUT_COLS:
          if col in self.df.columns:
              print(f"  {col}: {self.df[col].min():.0f} - {self.df[col].max():.0f}")
      print()
  \<close>
  The argument is the table that \<^verbatim>\<open>read_csv\<close> returned. There is no check of the row
  count or of the column names, and no \<^verbatim>\<open>raise\<close>.
\<close>

definition range_line :: "float frame \<Rightarrow> string \<Rightarrow> line" where
  "range_line f col =
     (let v = map (\<lambda>r. r ! the (index_of col (columns f))) (rows f)
      in Range col (min_of v) (max_of v))"

definition FormulaAnalyzer_init :: "library \<Rightarrow> cell frame \<Rightarrow> analyzer \<times> line list" where
  "FormulaAnalyzer_init L t =
     (let d = load_table L t
      in (\<lparr>df = d, formulas = [], models = []\<rparr>,
          [Loaded (length (rows d)), InputRanges]
          @ map (range_line d) (filter (\<lambda>col. col \<in> set (columns d)) INPUT_COLS)
          @ [Blank]))"

text \<open>
  \<^verbatim>\<open>
  def analyze_linear(self, output_col):
      X = self.df[INPUT_COLS].values
      y = self.df[output_col].values
      model = LinearRegression()
      model.fit(X, y)
      y_pred = model.predict(X)
      r2 = r2_score(y, y_pred)
      mae = mean_absolute_error(y, y_pred)
      return model, r2, mae
  \<close>
\<close>

definition analyze_linear :: "library \<Rightarrow> analyzer \<Rightarrow> string \<Rightarrow> error + model \<times> real option \<times> real" where
  "analyze_linear L self output_col =
     (case frame_values (df self) INPUT_COLS of Inl e \<Rightarrow> Inl e | Inr X \<Rightarrow>
      case series_values (df self) output_col of Inl e \<Rightarrow> Inl e | Inr y \<Rightarrow>
      case LinearRegression_fit L X y of Inl e \<Rightarrow> Inl e | Inr m \<Rightarrow>
      case predict m X of Inl e \<Rightarrow> Inl e | Inr y_pred \<Rightarrow>
      case r2_score y y_pred of Inl e \<Rightarrow> Inl e | Inr r \<Rightarrow>
      case mean_absolute_error y y_pred of Inl e \<Rightarrow> Inl e | Inr a \<Rightarrow>
      Inr (m, r, a))"

text \<open>
  \<^verbatim>\<open>
  def analyze_polynomial(self, output_col, degree=2):
      X = self.df[INPUT_COLS].values
      y = self.df[output_col].values
      poly = PolynomialFeatures(degree=degree, include_bias=False)
      X_poly = poly.fit_transform(X)
      model = Ridge(alpha=1.0)
      model.fit(X_poly, y)
      y_pred = model.predict(X_poly)
      r2 = r2_score(y, y_pred)
      mae = mean_absolute_error(y, y_pred)
      return model, poly, r2, mae
  \<close>
  The transformer \<^verbatim>\<open>poly\<close> that is returned is its degree.
\<close>

definition analyze_polynomial ::
  "library \<Rightarrow> analyzer \<Rightarrow> string \<Rightarrow> nat \<Rightarrow> error + model \<times> nat \<times> real option \<times> real" where
  "analyze_polynomial L self output_col degree =
     (case frame_values (df self) INPUT_COLS of Inl e \<Rightarrow> Inl e | Inr X \<Rightarrow>
      case series_values (df self) output_col of Inl e \<Rightarrow> Inl e | Inr y \<Rightarrow>
      case PolynomialFeatures_fit_transform degree X of Inl e \<Rightarrow> Inl e | Inr X_poly \<Rightarrow>
      case Ridge_fit L 1 X_poly y of Inl e \<Rightarrow> Inl e | Inr m \<Rightarrow>
      case predict m X_poly of Inl e \<Rightarrow> Inl e | Inr y_pred \<Rightarrow>
      case r2_score y y_pred of Inl e \<Rightarrow> Inl e | Inr r \<Rightarrow>
      case mean_absolute_error y y_pred of Inl e \<Rightarrow> Inl e | Inr a \<Rightarrow>
      Inr (m, degree, r, a))"

text \<open>
  \<^verbatim>\<open>
  def format_formula(self, model, output_name):
      coeffs = model.coef_
      intercept = model.intercept_
      terms = []
      for i, col in enumerate(INPUT_COLS):
          coef = coeffs[i]
          if abs(coef) > 0.001:  # Skip negligible coefficients
              sign = "+" if coef > 0 else "-"
              terms.append(f"{sign} {abs(coef):.4f}*{col}")
      formula = f"{output_name} = {intercept:.2f} {' '.join(terms)}"
      return formula
  \<close>
\<close>

definition term_text :: "real \<Rightarrow> string \<Rightarrow> string" where
  "term_text c col =
     (let sign = (if c > 0 then ''+'' else ''-'')
      in sign @ '' '' @ format_f 4 \<bar>c\<bar> @ ''*'' @ col)"

fun formula_terms :: "real list \<Rightarrow> (nat \<times> string) list \<Rightarrow> string list \<Rightarrow> error + string list" where
  "formula_terms coeffs [] terms = Inr terms"
| "formula_terms coeffs ((i, col) # rest) terms =
     (if length coeffs \<le> i then Inl IndexError
      else formula_terms coeffs rest
             (if \<bar>coeffs ! i\<bar> > 0.001 then terms @ [term_text (coeffs ! i) col] else terms))"

definition format_formula :: "model \<Rightarrow> string \<Rightarrow> error + string" where
  "format_formula m output_name =
     (case formula_terms (coef m) (enumerate 0 INPUT_COLS) [] of
        Inl e \<Rightarrow> Inl e
      | Inr terms \<Rightarrow>
          Inr (output_name @ '' = '' @ format_f 2 (intercept m) @ '' '' @ join '' '' terms))"

text \<open>
  \<^verbatim>\<open>
  def analyze_single_variable_effects(self, output_col):
      print(f"\n  Individual variable effects on {output_col}:")
      for input_col in INPUT_COLS:
          corr = self.df[input_col].corr(self.df[output_col])
          X = self.df[[input_col]].values
          y = self.df[output_col].values
          model = LinearRegression()
          model.fit(X, y)
          coef = model.coef_[0]
          direction = "UP" if coef > 0 else "DOWN"
          print(f"    {input_col:12s}: coef={coef:+.3f} ( ... {direction} ...), corr={corr:+.3f}")
  \<close>
\<close>

fun effects_loop :: "library \<Rightarrow> analyzer \<Rightarrow> string \<Rightarrow> string list \<Rightarrow> line list \<Rightarrow> error + line list" where
  "effects_loop L self output_col [] out = Inr out"
| "effects_loop L self output_col (input_col # rest) out =
     (case series_values (df self) input_col of Inl e \<Rightarrow> Inl e | Inr x \<Rightarrow>
      case series_values (df self) output_col of Inl e \<Rightarrow> Inl e | Inr y \<Rightarrow>
      case frame_values (df self) [input_col] of Inl e \<Rightarrow> Inl e | Inr X \<Rightarrow>
      case LinearRegression_fit L X y of Inl e \<Rightarrow> Inl e | Inr m \<Rightarrow>
      case coef m of [] \<Rightarrow> Inl IndexError | c # _ \<Rightarrow>
      effects_loop L self output_col rest (out @ [Effect input_col c (c > 0) (corr L x y)]))"

definition analyze_single_variable_effects :: "library \<Rightarrow> analyzer \<Rightarrow> string \<Rightarrow> error + line list" where
  "analyze_single_variable_effects L self output_col =
     effects_loop L self output_col INPUT_COLS [EffectsHeader output_col]"

text \<open>
  \<^verbatim>\<open>
  def run_analysis(self):
      ... banner ...
      results = []
      for output_col in OUTPUT_COLS:
          if output_col not in self.df.columns:
              print(f"\nSkipping {output_col} - not in data")
              continue
          ... section header ...
          lin_model, lin_r2, lin_mae = self.analyze_linear(output_col)
          poly_model, poly_transform, poly_r2, poly_mae = self.analyze_polynomial(output_col, degree=2)
          # Store linear model (simpler and usually good enough)
          self.models[output_col] = lin_model
          self.formulas[output_col] = self.format_formula(lin_model, output_col)
          ... print lin_r2, lin_mae, the formula, poly_r2, poly_mae ...
          improvement = poly_r2 - lin_r2
          if improvement > 0.02:
              print(f"    -> Polynomial is notably better (+{improvement:.3f} R2)")
          else:
              print(f"    -> Linear is sufficient (polynomial only +{improvement:.3f} R2)")
          self.analyze_single_variable_effects(output_col)
          results.append({'stat': output_col, 'r2': lin_r2, 'mae': lin_mae,
                          'formula': self.formulas[output_col]})
      return results
  \<close>
  There is no \<^verbatim>\<open>try\<close>: an exception in the body leaves the loop and the function.
  Arithmetic and comparison on floats that may be NaN: a difference with a NaN is NaN,
  and a comparison with a NaN is false.
\<close>

definition float_sub :: "real option \<Rightarrow> real option \<Rightarrow> real option" where
  "float_sub a b = (case (a, b) of (Some x, Some y) \<Rightarrow> Some (x - y) | _ \<Rightarrow> None)"

definition float_gt :: "real option \<Rightarrow> real \<Rightarrow> bool" where
  "float_gt a b = (case a of Some x \<Rightarrow> x > b | None \<Rightarrow> False)"

fun run_loop ::
  "library \<Rightarrow> string list \<Rightarrow> result list \<times> line list \<times> analyzer
     \<Rightarrow> error + result list \<times> line list \<times> analyzer" where
  "run_loop L [] st = Inr st"
| "run_loop L (output_col # rest) (results, out, self) =
     (if output_col \<notin> set (columns (df self))
      then run_loop L rest (results, out @ [Skipping output_col], self)
      else
        case analyze_linear L self output_col of Inl e \<Rightarrow> Inl e
        | Inr (lin_model, lin_r2, lin_mae) \<Rightarrow>
        case analyze_polynomial L self output_col 2 of Inl e \<Rightarrow> Inl e
        | Inr (poly_model, poly_transform, poly_r2, poly_mae) \<Rightarrow>
        case format_formula lin_model output_col of Inl e \<Rightarrow> Inl e
        | Inr f \<Rightarrow>
        let self' = self\<lparr>models := AList.update output_col lin_model (models self),
                         formulas := AList.update output_col f (formulas self)\<rparr>;
            improvement = float_sub poly_r2 lin_r2
        in case analyze_single_variable_effects L self' output_col of Inl e \<Rightarrow> Inl e
           | Inr effects \<Rightarrow>
             run_loop L rest
               (results @ [\<lparr>stat = output_col, r2 = lin_r2, mae = lin_mae, formula = f\<rparr>],
                out @ [Rule, Analyzing output_col, Rule,
                       LinearModel lin_r2 lin_mae, FormulaLine f,
                       PolynomialModel poly_r2 poly_mae,
                       (if float_gt improvement 0.02 then PolynomialBetter improvement
                        else LinearSufficient improvement)]
                    @ effects,
                self'))"

definition run_analysis :: "library \<Rightarrow> analyzer \<Rightarrow> error + result list \<times> line list \<times> analyzer" where
  "run_analysis L self =
     run_loop L OUTPUT_COLS
       ([], [Rule, Title ''OOTP RATING -> STAT FORMULA ANALYSIS'', Rule], self)"

text \<open>
  \<^verbatim>\<open>
  def print_summary(self):
      ... header and note ...
      for output_col, formula in self.formulas.items():
          model = self.models[output_col]
          y_pred = model.predict(self.df[INPUT_COLS].values)
          r2 = r2_score(self.df[output_col].values, y_pred)
          print(f"{formula}")
          print(f"  (R2 = {r2:.3f})\n")
  \<close>
\<close>

fun summary_loop :: "analyzer \<Rightarrow> (string \<times> string) list \<Rightarrow> line list \<Rightarrow> error + line list" where
  "summary_loop self [] out = Inr out"
| "summary_loop self ((output_col, f) # rest) out =
     (case map_of (models self) output_col of None \<Rightarrow> Inl (KeyError [output_col]) | Some m \<Rightarrow>
      case frame_values (df self) INPUT_COLS of Inl e \<Rightarrow> Inl e | Inr X \<Rightarrow>
      case predict m X of Inl e \<Rightarrow> Inl e | Inr y_pred \<Rightarrow>
      case series_values (df self) output_col of Inl e \<Rightarrow> Inl e | Inr y \<Rightarrow>
      case r2_score y y_pred of Inl e \<Rightarrow> Inl e | Inr r \<Rightarrow>
      summary_loop self rest (out @ [SummaryFormula f r]))"

definition print_summary :: "analyzer \<Rightarrow> error + line list" where
  "print_summary self =
     summary_loop self (formulas self)
       [Rule, Title ''SUMMARY: DERIVED FORMULAS'', Rule, SummaryNote]"

text \<open>
  \<^verbatim>\<open>
  def print_coefficient_table(self):
      ... header ...
      for output_col in OUTPUT_COLS:
          if output_col not in self.models:
              continue
          model = self.models[output_col]
          row = f"{output_col:<15} {model.intercept_:>10.2f}"
          for coef in model.coef_:
              row += f" {coef:>10.4f}"
          print(row)
  \<close>
\<close>

definition print_coefficient_table :: "analyzer \<Rightarrow> line list" where
  "print_coefficient_table self =
     [Rule, Title ''COEFFICIENT TABLE (for implementation)'', Rule, TableHeader]
     @ concat (map (\<lambda>output_col.
         case map_of (models self) output_col of
           None \<Rightarrow> []
         | Some m \<Rightarrow> [TableRow output_col (intercept m) (coef m)]) OUTPUT_COLS)"

text \<open>
  \<^verbatim>\<open>
  def test_prediction(self, stuff, control, hra, movement, babip):
      ... header ...
      X = np.array([[stuff, control, hra, movement, babip]])
      for output_col in OUTPUT_COLS:
          if output_col in self.models:
              pred = self.models[output_col].predict(X)[0]
              print(f"  {output_col:<15}: {pred:>6.1f}")
  \<close>
\<close>

fun prediction_loop :: "analyzer \<Rightarrow> float list list \<Rightarrow> string list \<Rightarrow> line list \<Rightarrow> error + line list" where
  "prediction_loop self X [] out = Inr out"
| "prediction_loop self X (output_col # rest) out =
     (case map_of (models self) output_col of
        None \<Rightarrow> prediction_loop self X rest out
      | Some m \<Rightarrow>
          (case predict m X of Inl e \<Rightarrow> Inl e
           | Inr p \<Rightarrow> prediction_loop self X rest (out @ [Prediction output_col (hd p)])))"

definition test_prediction ::
  "analyzer \<Rightarrow> float \<Rightarrow> float \<Rightarrow> float \<Rightarrow> float \<Rightarrow> float \<Rightarrow> error + line list" where
  "test_prediction self stuff control hra movement babip =
     prediction_loop self [[stuff, control, hra, movement, babip]] OUTPUT_COLS
       [Rule, PredictionHeader [stuff, control, hra, movement, babip], Rule]"

text \<open>
  \<^verbatim>\<open>
  def main():
      ...
      analyzer = FormulaAnalyzer(csv_path)
      analyzer.run_analysis()
      analyzer.print_summary()
      analyzer.print_coefficient_table()
      analyzer.test_prediction(stuff=50, control=50, hra=50, movement=50, babip=125)
      analyzer.test_prediction(stuff=80, control=80, hra=80, movement=80, babip=220)
      analyzer.test_prediction(stuff=20, control=20, hra=20, movement=20, babip=30)
      ... closing banner ...
  \<close>
  The first argument of the model is what \<^verbatim>\<open>pd.read_csv(csv_path)\<close> gives: the
  table, or the exception for a file that cannot be read.
\<close>

definition main :: "library \<Rightarrow> error + cell frame \<Rightarrow> error + line list" where
  "main L csv =
     (case csv of Inl e \<Rightarrow> Inl e | Inr t \<Rightarrow>
      case FormulaAnalyzer_init L t of (analyzer, o1) \<Rightarrow>
      case run_analysis L analyzer of Inl e \<Rightarrow> Inl e | Inr (results, o2, analyzer') \<Rightarrow>
      case print_summary analyzer' of Inl e \<Rightarrow> Inl e | Inr o3 \<Rightarrow>
      case test_prediction analyzer' (Fin 50) (Fin 50) (Fin 50) (Fin 50) (Fin 125) of
        Inl e \<Rightarrow> Inl e | Inr o5 \<Rightarrow>
      case test_prediction analyzer' (Fin 80) (Fin 80) (Fin 80) (Fin 80) (Fin 220) of
        Inl e \<Rightarrow> Inl e | Inr o6 \<Rightarrow>
      case test_prediction analyzer' (Fin 20) (Fin 20) (Fin 20) (Fin 20) (Fin 30) of
        Inl e \<Rightarrow> Inl e | Inr o7 \<Rightarrow>
      Inr (o1 @ o2 @ o3 @ print_coefficient_table analyzer' @ o5 @ o6 @ o7
           @ [Rule, Title ''ANALYSIS COMPLETE'', Rule]))"

subsection \<open>What the least-squares solver computes\<close>

text \<open>
  \<^verbatim>\<open>scipy.linalg.lstsq(A, b)\<close> returns a vector \<open>x\<close> that minimises the 2-norm of
  \<open>b - A x\<close>, and among the minimisers the one of least 2-norm. This is a statement
  about the parameter \<open>lstsq\<close> of the model, used as a hypothesis where a property
  depends on the numbers the solver returns.
\<close>

definition rss :: "real list list \<Rightarrow> real list \<Rightarrow> real list \<Rightarrow> real" where
  "rss A b x = (\<Sum>(r, t) \<leftarrow> zip A b. (dot r x - t)\<^sup>2)"

definition least_squares :: "real list list \<Rightarrow> real list \<Rightarrow> real list \<Rightarrow> bool" where
  "least_squares A b x \<longleftrightarrow>
     length x = ncols A \<and> (\<forall>z. length z = ncols A \<longrightarrow> rss A b x \<le> rss A b z)"

definition min_norm_lstsq :: "real list list \<Rightarrow> real list \<Rightarrow> real list \<Rightarrow> bool" where
  "min_norm_lstsq A b x \<longleftrightarrow>
     least_squares A b x \<and> (\<forall>z. least_squares A b z \<longrightarrow> dot x x \<le> dot z z)"

subsection \<open>A library instance for concrete tables\<close>

text \<open>
  To run the model on a concrete table the parameters need values. The instance below
  parses unsigned decimal integers, computes Pearson's correlation (NaN where a value
  is infinite), and solves both
  regression problems column by column: \<open>(a \<bullet> b) / (a \<bullet> a)\<close> for least squares
  (0 for a zero column) and \<open>(a \<bullet> b) / (a \<bullet> a + alpha)\<close> for ridge. These are the exact
  solutions when the centred columns are mutually orthogonal, in particular when at most
  one of them is not zero.
\<close>

definition parse_unsigned :: "string \<Rightarrow> float option" where
  "parse_unsigned s =
     (if s = [] then None
      else map_option (\<lambda>n. Fin (real n))
        (fold (\<lambda>c acc. case (acc, index_of c ''0123456789'') of
                          (Some a, Some d) \<Rightarrow> Some (10 * a + d)
                        | _ \<Rightarrow> None) s (Some 0)))"

definition column :: "nat \<Rightarrow> real list list \<Rightarrow> real list" where
  "column j A = map (\<lambda>r. r ! j) A"

definition lstsq_orthogonal :: "real list list \<Rightarrow> real list \<Rightarrow> real list" where
  "lstsq_orthogonal A b =
     map (\<lambda>j. if dot (column j A) (column j A) = 0 then 0
              else dot (column j A) b / dot (column j A) (column j A)) [0..<ncols A]"

definition ridge_orthogonal :: "real \<Rightarrow> real list list \<Rightarrow> real list \<Rightarrow> real list" where
  "ridge_orthogonal alpha A b =
     map (\<lambda>j. dot (column j A) b / (dot (column j A) (column j A) + alpha)) [0..<ncols A]"

definition pearson :: "float list \<Rightarrow> float list \<Rightarrow> real option" where
  "pearson u v =
     (let x = reals u; y = reals v;
          sxx = dot (center x) (center x); syy = dot (center y) (center y)
      in if \<not> list_all isfinite u \<or> \<not> list_all isfinite v
            \<or> length x < 2 \<or> sxx = 0 \<or> syy = 0 then None
         else Some (dot (center x) (center y) / sqrt (sxx * syy)))"

definition orthogonal_library :: library where
  "orthogonal_library =
     \<lparr>parse_number = parse_unsigned, lstsq = lstsq_orthogonal,
      ridge_solve = ridge_orthogonal, corr = pearson\<rparr>"

subsection \<open>The terms a formula shows\<close>

text \<open>
  The terms that \<^verbatim>\<open>format_formula\<close> appends, for a coefficient vector with an entry
  for each of the five inputs: one for each index whose coefficient is above the
  threshold, in the order of \<open>INPUT_COLS\<close>.
\<close>

definition visible_terms :: "real list \<Rightarrow> string list" where
  "visible_terms cs =
     map (\<lambda>i. term_text (cs ! i) (INPUT_COLS ! i)) (filter (\<lambda>i. 0.001 < \<bar>cs ! i\<bar>) [0..<5])"

subsection \<open>Concrete tables\<close>

text \<open>A roster whose first column holds player names.\<close>

definition roster_with_names :: "cell frame" where
  "roster_with_names =
     \<lparr>columns = ''name'' # INPUT_COLS @ OUTPUT_COLS,
      rows = [[Str ''Smith'', Num 50, Num 55, Num 45, Num 60, Num 125,
               Num 180, Num 20, Num 60, Num 150, Num 200],
              [Str ''Jones'', Num 65, Num 40, Num 50, Num 55, Num 140,
               Num 170, Num 18, Num 75, Num 190, Num 195]]\<rparr>"

subsection \<open>Shape of what the solvers return\<close>

text \<open>
  Both solvers return one coefficient for each column of the design matrix. This is
  what the source relies on when it indexes \<^verbatim>\<open>coef_\<close> and calls \<^verbatim>\<open>predict\<close>.
\<close>

definition solver_shapes :: "library \<Rightarrow> bool" where
  "solver_shapes L \<longleftrightarrow>
     (\<forall>A b. length (lstsq L A b) = ncols A)
     \<and> (\<forall>alpha A b. length (ridge_solve L alpha A b) = ncols A)"

text \<open>
  Three pitchers who differ in stuff only, with \<open>hr = 2 * stuff + 3\<close>; and two rows
  that do not differ at all.
\<close>

definition line_table :: "cell frame" where
  "line_table =
     \<lparr>columns = INPUT_COLS @ [''hr''],
      rows = [[Num 20, Num 50, Num 50, Num 50, Num 125, Num 43],
              [Num 50, Num 50, Num 50, Num 50, Num 125, Num 103],
              [Num 80, Num 50, Num 50, Num 50, Num 125, Num 163]]\<rparr>"

definition flat_table :: "cell frame" where
  "flat_table =
     \<lparr>columns = INPUT_COLS @ [''hr''],
      rows = [[Num 10, Num 50, Num 50, Num 50, Num 125, Num 23],
              [Num 10, Num 50, Num 50, Num 50, Num 125, Num 23]]\<rparr>"

text \<open>Files with a header line and no data: all ten columns, and the five ratings only.\<close>

definition header_only :: "cell frame" where
  "header_only = \<lparr>columns = INPUT_COLS @ OUTPUT_COLS, rows = []\<rparr>"

definition ratings_header_only :: "cell frame" where
  "ratings_header_only = \<lparr>columns = INPUT_COLS, rows = []\<rparr>"

text \<open>The analyzers that the constructor makes of these tables.\<close>

definition line_analyzer :: analyzer where
  "line_analyzer = fst (FormulaAnalyzer_init orthogonal_library line_table)"

definition flat_analyzer :: analyzer where
  "flat_analyzer = fst (FormulaAnalyzer_init orthogonal_library flat_table)"


text \<open>
  Three rows in which only stuff varies, around zero, and \<open>hr\<close> is its square: the
  centred columns of the degree-2 expansion are mutually orthogonal, and the quadratic
  model fits better than the linear one.
\<close>

definition curve_table :: "cell frame" where
  "curve_table =
     \<lparr>columns = INPUT_COLS @ [''hr''],
      rows = [[Num (- 1), Num 0, Num 0, Num 0, Num 0, Num 1],
              [Num 0, Num 0, Num 0, Num 0, Num 0, Num 0],
              [Num 1, Num 0, Num 0, Num 0, Num 0, Num 1]]\<rparr>"

definition curve_analyzer :: analyzer where
  "curve_analyzer = fst (FormulaAnalyzer_init orthogonal_library curve_table)"

subsection \<open>What a caller sees of a run\<close>

text \<open>The error, or the results and the printed lines, without the object's state.\<close>

fun outcome ::
  "error + result list \<times> line list \<times> analyzer \<Rightarrow> error + result list \<times> line list" where
  "outcome (Inl e) = Inl e"
| "outcome (Inr (results, out, self)) = Inr (results, out)"

text \<open>A table whose cells, under every column name, are finite numbers.\<close>

definition finite_frame :: "float frame \<Rightarrow> bool" where
  "finite_frame f \<longleftrightarrow>
     list_all (\<lambda>r. list_all (\<lambda>c. isfinite (r ! the (index_of c (columns f)))) (columns f))
       (rows f)"



text \<open>A table that has an output stat but lacks the \<open>babip\<close> rating.\<close>

definition no_babip_table :: "cell frame" where
  "no_babip_table =
     \<lparr>columns = [''stuff'', ''control'', ''hra'', ''movement'', ''hr''],
      rows = [[Num 50, Num 50, Num 50, Num 50, Num 20]]\<rparr>"

subsection \<open>Python numbers and the BABIP scale conversion\<close>

text \<open>
  The value of a float operation is the exact result rounded to the nearest double,
  ties to even: 53 significant bits, subnormal below \<open>2\<^sup>-\<^sup>1\<^sup>0\<^sup>2\<^sup>2\<close>, and an infinity
  where the rounded magnitude reaches \<open>2\<^sup>1\<^sup>0\<^sup>2\<^sup>4\<close>. The sign of zero is not modelled.
\<close>

definition rint :: "real \<Rightarrow> int" where
  "rint r =
     (let f = \<lfloor>r\<rfloor>; frac = r - of_int f
      in if frac < 1 / 2 then f
         else if 1 / 2 < frac then f + 1
         else if even f then f else f + 1)"

definition ulp :: "real \<Rightarrow> real" where
  "ulp x = 2 powr (of_int (max \<lfloor>log 2 \<bar>x\<bar>\<rfloor> (- 1022)) - 52)"

definition fl :: "real \<Rightarrow> float" where
  "fl x =
     (if x = 0 then Fin 0
      else let y = of_int (rint (x / ulp x)) * ulp x
           in if 2 ^ 1024 \<le> y then PosInf
              else if y \<le> - (2 ^ 1024) then NegInf
              else Fin y)"

text \<open>The operations of a float that may be NaN (\<open>None\<close>).\<close>

fun fneg :: "float \<Rightarrow> float" where
  "fneg (Fin x) = Fin (- x)"
| "fneg PosInf = NegInf"
| "fneg NegInf = PosInf"

fun negative :: "float \<Rightarrow> bool" where
  "negative (Fin x) = (x < 0)"
| "negative PosInf = False"
| "negative NegInf = True"

definition fadd :: "float option \<Rightarrow> float option \<Rightarrow> float option" where
  "fadd a b =
     (case (a, b) of
        (Some (Fin x), Some (Fin y)) \<Rightarrow> Some (fl (x + y))
      | (Some (Fin x), Some j) \<Rightarrow> Some j
      | (Some i, Some (Fin y)) \<Rightarrow> Some i
      | (Some i, Some j) \<Rightarrow> (if i = j then Some i else None)
      | _ \<Rightarrow> None)"

definition fsub :: "float option \<Rightarrow> float option \<Rightarrow> float option" where
  "fsub a b = fadd a (map_option fneg b)"

definition fmul :: "float option \<Rightarrow> float option \<Rightarrow> float option" where
  "fmul a b =
     (case (a, b) of
        (Some (Fin x), Some (Fin y)) \<Rightarrow> Some (fl (x * y))
      | (Some i, Some j) \<Rightarrow>
          (if i = Fin 0 \<or> j = Fin 0 then None
           else Some (if negative i = negative j then PosInf else NegInf))
      | _ \<Rightarrow> None)"

text \<open>Division by a float that is not zero.\<close>

definition fdiv :: "float option \<Rightarrow> float option \<Rightarrow> float option" where
  "fdiv a b =
     (case (a, b) of
        (Some (Fin x), Some (Fin y)) \<Rightarrow> Some (fl (x / y))
      | (Some (Fin x), Some j) \<Rightarrow> Some (Fin 0)
      | (Some i, Some (Fin y)) \<Rightarrow> Some (if negative i = (y < 0) then PosInf else NegInf)
      | _ \<Rightarrow> None)"

text \<open>
  A Python number is an \<^verbatim>\<open>int\<close> of any size or a \<^verbatim>\<open>float\<close>. An operation on two ints
  is exact, except for \<^verbatim>\<open>/\<close>, which gives the correctly rounded quotient as a float and
  raises OverflowError where that is too large; an operation with a float converts the
  int operand to a float first, with OverflowError where it is too large.
\<close>

datatype number = PyInt int | PyFloat "float option"

definition to_float :: "number \<Rightarrow> error + float option" where
  "to_float a =
     (case a of
        PyFloat x \<Rightarrow> Inr x
      | PyInt n \<Rightarrow> (case fl (of_int n) of Fin y \<Rightarrow> Inr (Some (Fin y)) | _ \<Rightarrow> Inl OverflowError))"

definition float_op ::
  "(float option \<Rightarrow> float option \<Rightarrow> float option) \<Rightarrow> number \<Rightarrow> number \<Rightarrow> error + number" where
  "float_op f a b =
     (case to_float a of Inl e \<Rightarrow> Inl e | Inr x \<Rightarrow>
      case to_float b of Inl e \<Rightarrow> Inl e | Inr y \<Rightarrow> Inr (PyFloat (f x y)))"

definition py_add :: "number \<Rightarrow> number \<Rightarrow> error + number" where
  "py_add a b =
     (case (a, b) of (PyInt m, PyInt n) \<Rightarrow> Inr (PyInt (m + n)) | _ \<Rightarrow> float_op fadd a b)"

definition py_sub :: "number \<Rightarrow> number \<Rightarrow> error + number" where
  "py_sub a b =
     (case (a, b) of (PyInt m, PyInt n) \<Rightarrow> Inr (PyInt (m - n)) | _ \<Rightarrow> float_op fsub a b)"

definition py_mul :: "number \<Rightarrow> number \<Rightarrow> error + number" where
  "py_mul a b =
     (case (a, b) of (PyInt m, PyInt n) \<Rightarrow> Inr (PyInt (m * n)) | _ \<Rightarrow> float_op fmul a b)"

definition py_truediv :: "number \<Rightarrow> number \<Rightarrow> error + number" where
  "py_truediv a b =
     (case (a, b) of
        (PyInt m, PyInt n) \<Rightarrow>
          (if n = 0 then Inl ZeroDivisionError
           else case fl (of_int m / of_int n) of
                  Fin y \<Rightarrow> Inr (PyFloat (Some (Fin y)))
                | _ \<Rightarrow> Inl OverflowError)
      | _ \<Rightarrow>
          (case to_float b of Inl e \<Rightarrow> Inl e | Inr y \<Rightarrow>
           if y = Some (Fin 0) then Inl ZeroDivisionError else float_op fdiv a b))"

text \<open>
  \<^verbatim>\<open>
  def convert_babip_to_ui(babip_editor):
      return 20 + (babip_editor - 1) * 60 / 249

  def convert_babip_to_editor(babip_ui):
      return 1 + (babip_ui - 20) * 249 / 60
  \<close>
  Neither function tests its argument.
\<close>

definition convert_babip_to_ui :: "number \<Rightarrow> error + number" where
  "convert_babip_to_ui babip_editor =
     (case py_sub babip_editor (PyInt 1) of Inl e \<Rightarrow> Inl e | Inr a \<Rightarrow>
      case py_mul a (PyInt 60) of Inl e \<Rightarrow> Inl e | Inr b \<Rightarrow>
      case py_truediv b (PyInt 249) of Inl e \<Rightarrow> Inl e | Inr c \<Rightarrow>
      py_add (PyInt 20) c)"

definition convert_babip_to_editor :: "number \<Rightarrow> error + number" where
  "convert_babip_to_editor babip_ui =
     (case py_sub babip_ui (PyInt 20) of Inl e \<Rightarrow> Inl e | Inr a \<Rightarrow>
      case py_mul a (PyInt 249) of Inl e \<Rightarrow> Inl e | Inr b \<Rightarrow>
      case py_truediv b (PyInt 60) of Inl e \<Rightarrow> Inl e | Inr c \<Rightarrow>
      py_add (PyInt 1) c)"

text \<open>
  The maps of the specification: the affine map that sends 1 to 20 and 250 to 80, and
  its inverse, in exact arithmetic.
\<close>

definition editor_to_ui :: "real \<Rightarrow> real" where
  "editor_to_ui v = 20 + (v - 1) * 60 / 249"

definition ui_to_editor :: "real \<Rightarrow> real" where
  "ui_to_editor u = 1 + (u - 20) * 249 / 60"

section \<open>Properties\<close>

subsection \<open>Table loader\<close>

lemma all_numeric_iff:
  "list_all (\<lambda>c. c \<noteq> None) (map (to_numeric p) r) = (\<not> list_ex (\<lambda>c. to_numeric p c = None) r)"
  by (induction r) auto

lemma Some_the_row: "list_all (\<lambda>c. c \<noteq> None) r \<Longrightarrow> map Some (map the r) = r"
  by (induction r) auto

lemma keep_row_iff:
  "(\<not> list_all (\<lambda>c. c = NaN) r \<and> list_all (\<lambda>c. c \<noteq> None) (map (to_numeric p) r))
     = (\<not> malformed p r)"
  unfolding malformed_def all_numeric_iff by blast

lemma retained_rows_aux:
  "map (map Some) (map (map the) (filter (list_all (\<lambda>c. c \<noteq> None))
       (map (map (to_numeric p)) (filter (\<lambda>r. \<not> list_all (\<lambda>c. c = NaN) r) xs))))
     = map (map (to_numeric p)) (filter (\<lambda>r. \<not> malformed p r) xs)"
proof (induction xs)
  case Nil
  then show ?case by simp
next
  case (Cons r xs)
  show ?case
  proof (cases "malformed p r")
    case True
    with keep_row_iff [of r p] Cons show ?thesis by auto
  next
    case False
    with keep_row_iff [of r p]
    have k: "\<not> list_all (\<lambda>c. c = NaN) r" "list_all (\<lambda>c. c \<noteq> None) (map (to_numeric p) r)"
      by blast+
    from Some_the_row [OF k(2)]
    have "map Some (map the (map (to_numeric p) r)) = map (to_numeric p) r" .
    with k False Cons show ?thesis by simp
  qed
qed

lemma retained_rows:
  "map (map Some) (rows (load_table L t))
     = map (map (to_numeric (parse_number L)))
         (filter (\<lambda>r. \<not> malformed (parse_number L) r) (rows t))"
  unfolding load_table_def dropna_def apply_to_numeric_def dropna_all_def
  using retained_rows_aux [of "parse_number L" "rows t"] by simp

lemma length_retained:
  "length (rows (load_table L t))
     = length (filter (\<lambda>r. \<not> malformed (parse_number L) r) (rows t))"
  using arg_cong [OF retained_rows [of L t], of length] by simp

lemma columns_load_table: "columns (load_table L t) = columns t"
  by (simp add: load_table_def dropna_def apply_to_numeric_def dropna_all_def)


text \<open>
  C9: the coercion goes over every column of the file. If some column \<open>j\<close> has in every
  row a cell that is no number (a text that does not parse, or a missing value), every
  row is dropped and the retained table has no rows.
\<close>

theorem text_column_empties_table:
  assumes "\<forall>r \<in> set (rows t). j < length r \<and> to_numeric (parse_number L) (r ! j) = None"
  shows "rows (load_table L t) = []"
proof -
  have "malformed (parse_number L) r" if "r \<in> set (rows t)" for r
  proof -
    from assms that have "j < length r" "to_numeric (parse_number L) (r ! j) = None" by auto
    then have "list_ex (\<lambda>c. to_numeric (parse_number L) c = None) r"
      unfolding list_ex_iff using nth_mem by blast
    then show ?thesis by (simp add: malformed_def)
  qed
  then have "filter (\<lambda>r. \<not> malformed (parse_number L) r) (rows t) = []"
    by (simp add: filter_empty_conv)
  with length_retained [of L t] show ?thesis by simp
qed

lemma parse_unsigned_names:
  "parse_unsigned ''Smith'' = None" "parse_unsigned ''Jones'' = None"
  by (simp_all add: parse_unsigned_def)

theorem text_column_empties_table_witness:
  "to_numeric (parse_number orthogonal_library) (Str ''Smith'') = None
   \<and> to_numeric (parse_number orthogonal_library) (Str ''Jones'') = None
   \<and> length (rows roster_with_names) = 2
   \<and> rows (load_table orthogonal_library roster_with_names) = []"
proof -
  have names: "to_numeric (parse_number orthogonal_library) (Str ''Smith'') = None"
    "to_numeric (parse_number orthogonal_library) (Str ''Jones'') = None"
    by (simp_all add: to_numeric_def orthogonal_library_def parse_unsigned_names)
  then have "\<forall>r \<in> set (rows roster_with_names).
      0 < length r \<and> to_numeric (parse_number orthogonal_library) (r ! 0) = None"
    by (simp add: roster_with_names_def)
  from text_column_empties_table [OF this] names show ?thesis
    by (simp add: roster_with_names_def)
qed

subsection \<open>Formula rendering\<close>

lemma digits_numeral:
  "digits (numeral k) n = digits (pred_numeral k) (n div 10) @ [digit (n mod 10)]"
proof -
  have "digits (numeral k) n = digits (Suc (pred_numeral k)) n"
    by (simp only: numeral_eq_Suc)
  then show ?thesis by (simp only: digits.simps)
qed

lemmas format_f_eval =
  format_f_def round_half_even_def decimal.simps digit_def digits_numeral

lemma formula_terms_in_range:
  "\<forall>p \<in> set ps. fst p < length cs \<Longrightarrow>
   formula_terms cs ps acc
     = Inr (acc @ map (\<lambda>p. term_text (cs ! fst p) (snd p))
                    (filter (\<lambda>p. 0.001 < \<bar>cs ! fst p\<bar>) ps))"
  by (induction ps arbitrary: acc) auto

lemma formula_terms_out_of_range:
  "\<exists>p \<in> set ps. length cs \<le> fst p \<Longrightarrow> formula_terms cs ps acc = Inl IndexError"
proof (induction ps arbitrary: acc)
  case Nil
  then show ?case by simp
next
  case (Cons p ps)
  obtain i col where p: "p = (i, col)" by (cases p)
  show ?case
  proof (cases "length cs \<le> i")
    case True
    with p show ?thesis by simp
  next
    case False
    with Cons.prems p have "\<exists>q \<in> set ps. length cs \<le> fst q" by auto
    with Cons.IH False p show ?thesis by simp
  qed
qed

lemma enumerate_INPUT_COLS:
  "enumerate 0 INPUT_COLS =
     [(0, ''stuff''), (1, ''control''), (2, ''hra''), (3, ''movement''), (4, ''babip'')]"
  by (simp add: INPUT_COLS_def enumerate_eq_zip upt_rec)

lemma last_term_text: "col \<noteq> [] \<Longrightarrow> last (term_text c col) = last col"
  by (simp add: term_text_def Let_def)

lemma hd_term_text: "hd (term_text c col) = (if c > 0 then CHR ''+'' else CHR ''-'')"
  by (simp add: term_text_def Let_def)

lemma less_five: "(i < (5::nat)) = (i = 0 \<or> i = 1 \<or> i = 2 \<or> i = 3 \<or> i = 4)"
  by auto

text \<open>
  A term names its input after the last \<open>*\<close>; the five names end in five different
  letters, so a term belongs to one input only.
\<close>

lemma term_for_iff:
  assumes "i < 5" "j < 5"
  shows "suffix (''*'' @ INPUT_COLS ! i) (term_text c (INPUT_COLS ! j)) = (i = j)"
proof
  assume "suffix (''*'' @ INPUT_COLS ! i) (term_text c (INPUT_COLS ! j))"
  then obtain pre where "term_text c (INPUT_COLS ! j) = pre @ ''*'' @ INPUT_COLS ! i"
    by (auto simp: suffix_def)
  then have "last (term_text c (INPUT_COLS ! j)) = last (pre @ ''*'' @ INPUT_COLS ! i)"
    by simp
  moreover have "INPUT_COLS ! i \<noteq> []" "INPUT_COLS ! j \<noteq> []"
    using assms by (auto simp: less_five INPUT_COLS_def)
  ultimately have "last (INPUT_COLS ! j) = last (INPUT_COLS ! i)"
    by (simp add: last_term_text)
  with assms show "i = j" by (auto simp: less_five INPUT_COLS_def)
next
  assume "i = j"
  then show "suffix (''*'' @ INPUT_COLS ! i) (term_text c (INPUT_COLS ! j))"
    by (simp add: term_text_def Let_def suffix_def)
qed

lemma formula_terms_five:
  assumes "5 \<le> length cs"
  shows "formula_terms cs (enumerate 0 INPUT_COLS) [] = Inr (visible_terms cs)"
proof -
  have "\<forall>p \<in> set (enumerate 0 INPUT_COLS). fst p < length cs"
    using assms by (auto simp: enumerate_INPUT_COLS)
  from formula_terms_in_range [OF this, of "[]"] show ?thesis
    by (simp add: enumerate_INPUT_COLS visible_terms_def INPUT_COLS_def upt_rec)
qed

lemma format_formula_five:
  "5 \<le> length (coef m) \<Longrightarrow>
   format_formula m name
     = Inr (name @ '' = '' @ format_f 2 (intercept m) @ '' '' @ join '' '' (visible_terms (coef m)))"
  by (simp add: format_formula_def formula_terms_five)

lemma format_formula_short:
  "length (coef m) < 5 \<Longrightarrow> format_formula m name = Inl IndexError"
proof -
  assume "length (coef m) < 5"
  then have "\<exists>p \<in> set (enumerate 0 INPUT_COLS). length (coef m) \<le> fst p"
    by (auto simp: enumerate_INPUT_COLS)
  from formula_terms_out_of_range [OF this] show ?thesis
    by (simp add: format_formula_def)
qed

text \<open>
  C5: for a linear model fitted on the five inputs, the formula is the output name, the
  intercept and the visible terms joined by blanks. It has a term for input \<open>i\<close> (a term
  ending in \<open>*\<close> and the name of the input) exactly when the absolute value of
  coefficient \<open>i\<close> is above 0.001, and that term starts with \<open>+\<close> exactly when the
  coefficient is positive and with \<open>-\<close> exactly when it is negative.
\<close>

theorem formula_shows_visible_coefficients:
  assumes "length (coef m) = 5"
  shows "format_formula m name
           = Inr (name @ '' = '' @ format_f 2 (intercept m) @ '' ''
                  @ join '' '' (visible_terms (coef m)))
    \<and> (\<forall>i<5. (\<exists>t \<in> set (visible_terms (coef m)). suffix (''*'' @ INPUT_COLS ! i) t)
               = (0.001 < \<bar>coef m ! i\<bar>))
    \<and> (\<forall>i<5. \<forall>t \<in> set (visible_terms (coef m)). suffix (''*'' @ INPUT_COLS ! i) t \<longrightarrow>
           (hd t = CHR ''+'') = (0 < coef m ! i) \<and> (hd t = CHR ''-'') = (coef m ! i < 0))"
proof (intro conjI allI impI ballI)
  show "format_formula m name
           = Inr (name @ '' = '' @ format_f 2 (intercept m) @ '' ''
                  @ join '' '' (visible_terms (coef m)))"
    using assms by (simp add: format_formula_five)
next
  fix i :: nat assume i: "i < 5"
  show "(\<exists>t \<in> set (visible_terms (coef m)). suffix (''*'' @ INPUT_COLS ! i) t)
               = (0.001 < \<bar>coef m ! i\<bar>)"
  proof
    assume "\<exists>t \<in> set (visible_terms (coef m)). suffix (''*'' @ INPUT_COLS ! i) t"
    then obtain j where j: "j < 5" "0.001 < \<bar>coef m ! j\<bar>"
      "suffix (''*'' @ INPUT_COLS ! i) (term_text (coef m ! j) (INPUT_COLS ! j))"
      by (auto simp: visible_terms_def)
    with term_for_iff [OF i j(1)] show "0.001 < \<bar>coef m ! i\<bar>" by simp
  next
    assume v: "0.001 < \<bar>coef m ! i\<bar>"
    with i have "term_text (coef m ! i) (INPUT_COLS ! i) \<in> set (visible_terms (coef m))"
      by (auto simp: visible_terms_def)
    moreover have "suffix (''*'' @ INPUT_COLS ! i) (term_text (coef m ! i) (INPUT_COLS ! i))"
      using term_for_iff [OF i i] by simp
    ultimately show "\<exists>t \<in> set (visible_terms (coef m)). suffix (''*'' @ INPUT_COLS ! i) t"
      by blast
  qed
next
  fix i t assume i: "i < (5::nat)" and t: "t \<in> set (visible_terms (coef m))"
    and s: "suffix (''*'' @ INPUT_COLS ! i) t"
  from t obtain j where j: "j < 5" "0.001 < \<bar>coef m ! j\<bar>"
      "t = term_text (coef m ! j) (INPUT_COLS ! j)"
    by (auto simp: visible_terms_def)
  with s term_for_iff [OF i j(1)] have ij: "i = j" by simp
  from j ij show "(hd t = CHR ''+'') = (0 < coef m ! i)"
    by (simp add: hd_term_text)
  from j ij show "(hd t = CHR ''-'') = (coef m ! i < 0)"
    by (auto simp: hd_term_text)
qed

lemma visible_terms_example:
  "visible_terms [2, 0, - (1 / 2), 1 / 1000, 11 / 10000]
     = [''+ 2.0000*stuff'', ''- 0.5000*hra'', ''+ 0.0011*babip'']"
  by (simp add: visible_terms_def upt_rec INPUT_COLS_def term_text_def format_f_eval)

theorem formula_shows_visible_coefficients_witness:
  "length (coef \<lparr>coef = [2, 0, - 0.5, 0.001, 0.0011], intercept = 3\<rparr>) = 5
   \<and> format_formula \<lparr>coef = [2, 0, - 0.5, 0.001, 0.0011], intercept = 3\<rparr> ''hr''
     = Inr ''hr = 3.00 + 2.0000*stuff - 0.5000*hra + 0.0011*babip''"
proof -
  have len: "length (coef \<lparr>coef = [2, 0, - 0.5, 0.001, 0.0011], intercept = 3\<rparr>) = 5"
    by simp
  have "format_f 2 3 = ''3.00''"
    by (simp add: format_f_eval)
  with formula_shows_visible_coefficients [OF len, of "''hr''", THEN conjunct1] len
  show ?thesis
    by (simp add: visible_terms_example)
qed

subsection \<open>Selecting columns and fitting\<close>

lemma index_of_None: "(index_of x xs = None) = (x \<notin> set xs)"
  by (induction xs) auto

lemma frame_values_present:
  "set cs \<subseteq> set (columns f) \<Longrightarrow>
   frame_values f cs
     = Inr (map (\<lambda>r. map (\<lambda>c. r ! the (index_of c (columns f))) cs) (rows f))"
  by (auto simp: frame_values_def list_all_iff)

lemma frame_values_missing:
  "\<not> set cs \<subseteq> set (columns f) \<Longrightarrow>
   frame_values f cs = Inl (KeyError (filter (\<lambda>c. c \<notin> set (columns f)) cs))"
  by (auto simp: frame_values_def list_all_iff)

lemma frame_values_shape:
  "frame_values f cs = Inr X \<Longrightarrow>
   length X = length (rows f) \<and> (\<forall>r \<in> set X. length r = length cs)"
  by (auto simp: frame_values_def split: if_splits)

lemma frame_values_finite:
  "finite_frame f \<Longrightarrow> frame_values f cs = Inr X \<Longrightarrow> list_all (list_all isfinite) X"
  by (auto simp: frame_values_def finite_frame_def list_all_iff split: if_splits)

lemma series_values_present:
  "c \<in> set (columns f) \<Longrightarrow> \<exists>y. series_values f c = Inr y \<and> length y = length (rows f)"
  by (cases "index_of c (columns f)") (auto simp: series_values_def index_of_None)

lemma series_values_length:
  "series_values f c = Inr y \<Longrightarrow> length y = length (rows f)"
  by (auto simp: series_values_def split: option.splits)

lemma series_values_finite:
  assumes "finite_frame f" "series_values f c = Inr y"
  shows "list_all isfinite y"
proof -
  from assms(2) obtain i where i: "index_of c (columns f) = Some i"
    and y: "y = map (\<lambda>r. r ! i) (rows f)"
    by (auto simp: series_values_def split: option.splits)
  from i have "c \<in> set (columns f)"
    using index_of_None [of c "columns f"] by auto
  with assms(1) i show ?thesis
    unfolding y finite_frame_def list_all_iff by fastforce
qed

lemma ncols_uniform: "X \<noteq> [] \<Longrightarrow> \<forall>r \<in> set X. length r = n \<Longrightarrow> ncols X = n"
  by (cases X) (auto simp: ncols_def)

lemma length_col_means: "length (col_means X) = ncols X"
  by (simp add: col_means_def)

lemma center_rows_shape:
  assumes "X \<noteq> []" "\<forall>r \<in> set X. length r = n"
  shows "center_rows X \<noteq> [] \<and> (\<forall>r \<in> set (center_rows X). length r = n)"
  using assms ncols_uniform [OF assms]
  by (auto simp: center_rows_def length_col_means)

lemma ncols_center_rows:
  "X \<noteq> [] \<Longrightarrow> \<forall>r \<in> set X. length r = n \<Longrightarrow> ncols (center_rows X) = n"
  using center_rows_shape [of X n] ncols_uniform [of "center_rows X" n] by blast

lemma length_reals: "length (reals v) = length v"
  by (simp add: reals_def)

lemma reals_Fin: "reals (map Fin v) = v"
  by (simp add: reals_def comp_def)

lemma map_reals_Fin: "map reals (map (map Fin) X) = X"
  by (simp add: reals_Fin comp_def)

lemma isfinite_Fin: "list_all isfinite (map Fin v)"
  by (simp add: list_all_iff)

lemma isfinite_map_Fin: "list_all (list_all isfinite) (map (map Fin) X)"
  by (simp add: list_all_iff)

lemma ncols_map: "(\<And>r. length (g r) = length r) \<Longrightarrow> ncols (map g X) = ncols X"
  by (cases X) (simp_all add: ncols_def)

lemma LinearRegression_fit_empty: "LinearRegression_fit L [] y = Inl ValueError"
  by (simp add: LinearRegression_fit_def check_X_y_def check_array_def)

lemma LinearRegression_fit_infinite:
  "\<not> list_all (list_all isfinite) X \<Longrightarrow> LinearRegression_fit L X y = Inl ValueError"
  by (simp add: LinearRegression_fit_def check_X_y_def check_array_def)

lemma LinearRegression_fit_ok:
  "X \<noteq> [] \<Longrightarrow> ncols X \<noteq> 0 \<Longrightarrow> list_all (list_all isfinite) X \<Longrightarrow> list_all isfinite y \<Longrightarrow>
   length y = length X \<Longrightarrow>
   LinearRegression_fit L X y
     = Inr \<lparr>coef = lstsq L (center_rows (map reals X)) (center (reals y)),
            intercept = mean (reals y)
              - dot (col_means (map reals X))
                  (lstsq L (center_rows (map reals X)) (center (reals y)))\<rparr>"
  by (simp add: LinearRegression_fit_def check_X_y_def check_array_def Let_def)

lemma Ridge_fit_ok:
  "X \<noteq> [] \<Longrightarrow> ncols X \<noteq> 0 \<Longrightarrow> list_all (list_all isfinite) X \<Longrightarrow> list_all isfinite y \<Longrightarrow>
   length y = length X \<Longrightarrow>
   Ridge_fit L alpha X y
     = Inr \<lparr>coef = ridge_solve L alpha (center_rows (map reals X)) (center (reals y)),
            intercept = mean (reals y)
              - dot (col_means (map reals X))
                  (ridge_solve L alpha (center_rows (map reals X)) (center (reals y)))\<rparr>"
  by (simp add: Ridge_fit_def check_X_y_def check_array_def Let_def)

lemma predict_ok:
  "X \<noteq> [] \<Longrightarrow> ncols X \<noteq> 0 \<Longrightarrow> list_all (list_all isfinite) X \<Longrightarrow>
   \<forall>r \<in> set X. length r = length (coef m) \<Longrightarrow>
   predict m X = Inr (map (\<lambda>r. dot r (coef m) + intercept m) (map reals X))"
  by (auto simp: predict_def check_array_def list_ex_iff)

lemma r2_score_ok:
  "y \<noteq> [] \<Longrightarrow> list_all isfinite y \<Longrightarrow> length p = length y \<Longrightarrow> \<exists>r. r2_score y p = Inr r"
  by (simp add: r2_score_def Let_def)

lemma mean_absolute_error_ok:
  "y \<noteq> [] \<Longrightarrow> list_all isfinite y \<Longrightarrow> length p = length y \<Longrightarrow>
   \<exists>e. mean_absolute_error y p = Inr e"
  by (simp add: mean_absolute_error_def)

lemma length_INPUT_COLS: "length INPUT_COLS = 5"
  by (simp add: INPUT_COLS_def)

lemma analyze_linear_key_error:
  "\<not> set INPUT_COLS \<subseteq> set (columns (df a)) \<Longrightarrow>
   analyze_linear L a c = Inl (KeyError (filter (\<lambda>k. k \<notin> set (columns (df a))) INPUT_COLS))"
  by (simp add: analyze_linear_def frame_values_missing)

lemma analyze_linear_no_rows:
  assumes "set INPUT_COLS \<subseteq> set (columns (df a))" "c \<in> set (columns (df a))"
    and "rows (df a) = []"
  shows "analyze_linear L a c = Inl ValueError"
proof -
  from series_values_present [OF assms(2)] obtain y where "series_values (df a) c = Inr y"
    by blast
  then show ?thesis
    using assms by (simp add: analyze_linear_def frame_values_present LinearRegression_fit_empty)
qed

lemma analyze_linear_rows:
  assumes "set INPUT_COLS \<subseteq> set (columns (df a))" "c \<in> set (columns (df a))"
    and "rows (df a) \<noteq> []" and "solver_shapes L" and "finite_frame (df a)"
  shows "\<exists>m r e. analyze_linear L a c = Inr (m, r, e) \<and> length (coef m) = 5"
proof -
  obtain X where X: "frame_values (df a) INPUT_COLS = Inr X"
    using frame_values_present [OF assms(1)] by blast
  from frame_values_shape [OF X] assms(3)
  have sh: "X \<noteq> []" "\<forall>r \<in> set X. length r = 5" "length X = length (rows (df a))"
    by (auto simp: length_INPUT_COLS)
  from series_values_present [OF assms(2)] obtain y
    where y: "series_values (df a) c = Inr y" "length y = length (rows (df a))" by blast
  have fin: "list_all (list_all isfinite) X" "list_all isfinite y"
    using frame_values_finite [OF assms(5) X] series_values_finite [OF assms(5) y(1)] by auto
  have nc: "ncols X = 5" using ncols_uniform [OF sh(1,2)] .
  define R where "R = map reals X"
  have rsh: "R \<noteq> []" "\<forall>r \<in> set R. length r = 5" "length R = length X"
    using sh by (auto simp: R_def length_reals)
  define m where "m = \<lparr>coef = lstsq L (center_rows R) (center (reals y)),
            intercept = mean (reals y)
              - dot (col_means R) (lstsq L (center_rows R) (center (reals y)))\<rparr>"
  have fit: "LinearRegression_fit L X y = Inr m"
    unfolding m_def R_def using sh y nc fin by (intro LinearRegression_fit_ok) auto
  have len: "length (coef m) = 5"
    using assms(4) ncols_center_rows [OF rsh(1,2)] by (simp add: m_def solver_shapes_def)
  have pr: "predict m X = Inr (map (\<lambda>r. dot r (coef m) + intercept m) R)"
    unfolding R_def using sh nc len fin by (intro predict_ok) auto
  have yne: "y \<noteq> []" using y sh by auto
  obtain r where r: "r2_score y (map (\<lambda>r. dot r (coef m) + intercept m) R) = Inr r"
    using r2_score_ok [OF yne fin(2), of "map (\<lambda>r. dot r (coef m) + intercept m) R"] y sh rsh
    by auto
  obtain e where e: "mean_absolute_error y (map (\<lambda>r. dot r (coef m) + intercept m) R) = Inr e"
    using mean_absolute_error_ok [OF yne fin(2), of "map (\<lambda>r. dot r (coef m) + intercept m) R"]
      y sh rsh by auto
  have "analyze_linear L a c = Inr (m, r, e)"
    by (simp add: analyze_linear_def X y fit pr r e)
  with len show ?thesis by blast
qed


lemma list_of_five: "length r = 5 \<Longrightarrow> \<exists>a b c d e. r = [a, b, c, d, e]"
proof -
  assume "length r = 5"
  then have "length r = Suc (Suc (Suc (Suc (Suc 0))))" by simp
  then show ?thesis by (auto simp: length_Suc_conv)
qed

lemma monomials_one: "monomials (Suc 0) xs = xs"
  by (induction xs) auto

lemma poly_row_two: "poly_row 2 r = r @ monomials (Suc (Suc 0)) r"
proof -
  have "[1..<Suc 2] = [Suc 0, Suc (Suc 0)]" by (simp add: upt_rec numeral_2_eq_2)
  then show ?thesis by (simp add: poly_row_def monomials_one)
qed

lemma length_poly_row: "length r = 5 \<Longrightarrow> length (poly_row 2 r) = 20"
proof -
  assume "length r = 5"
  from list_of_five [OF this] obtain a b c d e where "r = [a, b, c, d, e]" by blast
  then show ?thesis by (simp add: poly_row_two)
qed

lemma analyze_polynomial_key_error:
  "\<not> set INPUT_COLS \<subseteq> set (columns (df a)) \<Longrightarrow>
   analyze_polynomial L a c d
     = Inl (KeyError (filter (\<lambda>k. k \<notin> set (columns (df a))) INPUT_COLS))"
  by (simp add: analyze_polynomial_def frame_values_missing)


lemma analyze_polynomial_rows:
  assumes "set INPUT_COLS \<subseteq> set (columns (df a))" "c \<in> set (columns (df a))"
    and "rows (df a) \<noteq> []" and "solver_shapes L" and "finite_frame (df a)"
  shows "\<exists>m r e. analyze_polynomial L a c 2 = Inr (m, 2, r, e) \<and> length (coef m) = 20"
proof -
  obtain X where X: "frame_values (df a) INPUT_COLS = Inr X"
    using frame_values_present [OF assms(1)] by blast
  from frame_values_shape [OF X] assms(3)
  have sh: "X \<noteq> []" "\<forall>r \<in> set X. length r = 5" "length X = length (rows (df a))"
    by (auto simp: length_INPUT_COLS)
  from series_values_present [OF assms(2)] obtain y
    where y: "series_values (df a) c = Inr y" "length y = length (rows (df a))" by blast
  have fin: "list_all (list_all isfinite) X" "list_all isfinite y"
    using frame_values_finite [OF assms(5) X] series_values_finite [OF assms(5) y(1)] by auto
  define P where "P = map (\<lambda>r. map Fin (poly_row 2 (reals r))) X"
  have psh: "P \<noteq> []" "\<forall>r \<in> set P. length r = 20" "length P = length X"
    "list_all (list_all isfinite) P"
    using sh by (auto simp: P_def length_poly_row length_reals list_all_iff)
  define R where "R = map reals P"
  have rsh: "R \<noteq> []" "\<forall>r \<in> set R. length r = 20" "length R = length X"
    using psh by (auto simp: R_def length_reals)
  have nc: "ncols X = 5" "ncols P = 20"
    using ncols_uniform [OF sh(1,2)] ncols_uniform [OF psh(1,2)] by auto
  have tr: "PolynomialFeatures_fit_transform 2 X = Inr P"
    using sh nc fin by (simp add: PolynomialFeatures_fit_transform_def check_array_def P_def)
  define m where "m = \<lparr>coef = ridge_solve L 1 (center_rows R) (center (reals y)),
            intercept = mean (reals y)
              - dot (col_means R) (ridge_solve L 1 (center_rows R) (center (reals y)))\<rparr>"
  have fit: "Ridge_fit L 1 P y = Inr m"
    unfolding m_def R_def using psh sh y nc fin by (intro Ridge_fit_ok) auto
  have len: "length (coef m) = 20"
    using assms(4) ncols_center_rows [OF rsh(1,2)] by (simp add: m_def solver_shapes_def)
  have pr: "predict m P = Inr (map (\<lambda>r. dot r (coef m) + intercept m) R)"
    unfolding R_def using psh nc len by (intro predict_ok) auto
  have yne: "y \<noteq> []" using y sh by auto
  obtain r where r: "r2_score y (map (\<lambda>r. dot r (coef m) + intercept m) R) = Inr r"
    using r2_score_ok [OF yne fin(2), of "map (\<lambda>r. dot r (coef m) + intercept m) R"]
      y sh rsh by auto
  obtain e where e: "mean_absolute_error y (map (\<lambda>r. dot r (coef m) + intercept m) R) = Inr e"
    using mean_absolute_error_ok [OF yne fin(2), of "map (\<lambda>r. dot r (coef m) + intercept m) R"]
      y sh rsh by auto
  have "analyze_polynomial L a c 2 = Inr (m, 2, r, e)"
    by (simp add: analyze_polynomial_def X y tr fit pr r e)
  with len show ?thesis by blast
qed

lemma solver_shapes_orthogonal: "solver_shapes orthogonal_library"
  by (simp add: solver_shapes_def orthogonal_library_def lstsq_orthogonal_def
      ridge_orthogonal_def)

subsection \<open>The loop of \<open>run_analysis\<close>\<close>

lemma run_loop_skip:
  "c \<notin> set (columns (df a)) \<Longrightarrow>
   run_loop L (c # rest) (res, out, a) = run_loop L rest (res, out @ [Skipping c], a)"
  by simp

lemma run_loop_linear_error:
  "c \<in> set (columns (df a)) \<Longrightarrow> analyze_linear L a c = Inl e \<Longrightarrow>
   run_loop L (c # rest) (res, out, a) = Inl e"
  by simp

lemma run_loop_polynomial_error:
  "c \<in> set (columns (df a)) \<Longrightarrow> analyze_linear L a c = Inr lin \<Longrightarrow>
   analyze_polynomial L a c 2 = Inl e \<Longrightarrow>
   run_loop L (c # rest) (res, out, a) = Inl e"
  by (cases lin) simp

lemma run_loop_all_skipped:
  "\<forall>c \<in> set cs. c \<notin> set (columns (df a)) \<Longrightarrow>
   run_loop L cs (res, out, a) = Inr (res, out @ map Skipping cs, a)"
  by (induction cs arbitrary: out) auto

lemma run_loop_abort:
  assumes "\<exists>c \<in> set cs. c \<in> set (columns (df a))"
    and "\<forall>c \<in> set cs. c \<in> set (columns (df a)) \<longrightarrow> analyze_linear L a c = Inl e"
  shows "run_loop L cs (res, out, a) = Inl e"
  using assms
proof (induction cs arbitrary: out)
  case Nil
  then show ?case by simp
next
  case (Cons c cs)
  show ?case
  proof (cases "c \<in> set (columns (df a))")
    case True
    with Cons.prems(2) have "analyze_linear L a c = Inl e" by simp
    with True show ?thesis by simp
  next
    case False
    with Cons.prems have "\<exists>k \<in> set cs. k \<in> set (columns (df a))"
      "\<forall>k \<in> set cs. k \<in> set (columns (df a)) \<longrightarrow> analyze_linear L a k = Inl e"
      by auto
    from Cons.IH [OF this] False show ?thesis by simp
  qed
qed

lemma effects_loop_rows:
  assumes "solver_shapes L" "c \<in> set (columns (df a))" "rows (df a) \<noteq> []"
    and "set ics \<subseteq> set (columns (df a))" and "finite_frame (df a)"
  shows "\<exists>ls. effects_loop L a c ics out = Inr ls"
  using assms(4)
proof (induction ics arbitrary: out)
  case Nil
  then show ?case by simp
next
  case (Cons ic ics)
  from Cons.prems have ic: "ic \<in> set (columns (df a))" by simp
  from series_values_present [OF ic] obtain x where x: "series_values (df a) ic = Inr x"
    by blast
  from series_values_present [OF assms(2)] obtain y
    where y: "series_values (df a) c = Inr y" "length y = length (rows (df a))" by blast
  obtain X where X: "frame_values (df a) [ic] = Inr X"
    using frame_values_present [of "[ic]" "df a"] ic by auto
  from frame_values_shape [OF X] assms(3)
  have sh: "X \<noteq> []" "\<forall>r \<in> set X. length r = 1" "length X = length (rows (df a))"
    by auto
  have nc: "ncols X = 1" using ncols_uniform [OF sh(1,2)] .
  have fin: "list_all (list_all isfinite) X" "list_all isfinite y"
    using frame_values_finite [OF assms(5) X] series_values_finite [OF assms(5) y(1)] by auto
  define R where "R = map reals X"
  have rsh: "R \<noteq> []" "\<forall>r \<in> set R. length r = 1"
    using sh by (auto simp: R_def length_reals)
  define m where "m = \<lparr>coef = lstsq L (center_rows R) (center (reals y)),
            intercept = mean (reals y)
              - dot (col_means R) (lstsq L (center_rows R) (center (reals y)))\<rparr>"
  have fit: "LinearRegression_fit L X y = Inr m"
    unfolding m_def R_def using sh y nc fin by (intro LinearRegression_fit_ok) auto
  have "length (coef m) = 1"
    using assms(1) ncols_center_rows [OF rsh(1,2)] by (simp add: m_def solver_shapes_def)
  then obtain k where k: "coef m = [k]"
    by (cases "coef m") auto
  from Cons.prems have "set ics \<subseteq> set (columns (df a))" by simp
  from Cons.IH [OF this, of "out @ [Effect ic k (k > 0) (corr L x y)]"]
  show ?case by (simp add: x y X fit k)
qed

lemma run_loop_rows:
  assumes "solver_shapes L" "set INPUT_COLS \<subseteq> set (columns (df a))" "rows (df a) \<noteq> []"
    and "finite_frame (df a)"
  shows "\<exists>res' out' a'. run_loop L cs (res, out, a) = Inr (res', out', a')"
  using assms(2,3,4)
proof (induction cs arbitrary: res out a)
  case Nil
  then show ?case by simp
next
  case (Cons c cs)
  show ?case
  proof (cases "c \<in> set (columns (df a))")
    case False
    with Cons.IH [OF Cons.prems, of res "out @ [Skipping c]"] show ?thesis by simp
  next
    case True
    from analyze_linear_rows [OF Cons.prems(1) True Cons.prems(2) assms(1) Cons.prems(3)]
    obtain m r e where lin: "analyze_linear L a c = Inr (m, r, e)" "length (coef m) = 5"
      by blast
    from analyze_polynomial_rows [OF Cons.prems(1) True Cons.prems(2) assms(1) Cons.prems(3)]
    obtain pm pr pe where pol: "analyze_polynomial L a c 2 = Inr (pm, 2, pr, pe)"
      by blast
    from lin(2) format_formula_five [of m c] obtain f where f: "format_formula m c = Inr f"
      by simp
    define a1 where "a1 = a\<lparr>models := AList.update c m (models a),
                             formulas := AList.update c f (formulas a)\<rparr>"
    have d: "df a1 = df a" by (simp add: a1_def)
    from effects_loop_rows [OF assms(1), of c a1 INPUT_COLS "[EffectsHeader c]"]
      True Cons.prems d
    obtain eff where eff: "analyze_single_variable_effects L a1 c = Inr eff"
      by (auto simp: analyze_single_variable_effects_def)
    from Cons.IH [of a1] Cons.prems d
    have "\<exists>res' out' a'. run_loop L cs
        (res @ [\<lparr>stat = c, r2 = r, mae = e, formula = f\<rparr>],
         out @ [Rule, Analyzing c, Rule, LinearModel r e, FormulaLine f, PolynomialModel pr pe,
                (if float_gt (float_sub pr r) 0.02 then PolynomialBetter (float_sub pr r)
                 else LinearSufficient (float_sub pr r))] @ eff, a1) = Inr (res', out', a')"
      by simp
    then show ?thesis
      using True lin pol f eff by (simp add: a1_def Let_def)
  qed
qed

subsection \<open>Fit errors\<close>

lemma df_init: "df (fst (FormulaAnalyzer_init L t)) = load_table L t"
  by (simp add: FormulaAnalyzer_init_def Let_def)

lemma load_line_table:
  "load_table L line_table =
     \<lparr>columns = INPUT_COLS @ [''hr''],
      rows = map (map Fin) [[20, 50, 50, 50, 125, 43], [50, 50, 50, 50, 125, 103],
              [80, 50, 50, 50, 125, 163]]\<rparr>"
  by (simp add: load_table_def dropna_def apply_to_numeric_def dropna_all_def line_table_def
      to_numeric_def)


lemma check_Fin:
  "check_array (map (map Fin) X) = (X \<noteq> [] \<and> ncols X \<noteq> 0)"
  "check_X_y (map (map Fin) X) (map Fin y) = (X \<noteq> [] \<and> ncols X \<noteq> 0 \<and> length y = length X)"
  by (simp_all add: check_X_y_def check_array_def isfinite_map_Fin isfinite_Fin ncols_map)

lemma fit_Fin:
  "LinearRegression_fit L (map (map Fin) X) (map Fin y) =
     (if X = [] \<or> ncols X = 0 \<or> length y \<noteq> length X then Inl ValueError
      else Inr \<lparr>coef = lstsq L (center_rows X) (center y),
                intercept = mean y - dot (col_means X) (lstsq L (center_rows X) (center y))\<rparr>)"
  "Ridge_fit L alpha (map (map Fin) X) (map Fin y) =
     (if X = [] \<or> ncols X = 0 \<or> length y \<noteq> length X then Inl ValueError
      else Inr \<lparr>coef = ridge_solve L alpha (center_rows X) (center y),
                intercept = mean y
                  - dot (col_means X) (ridge_solve L alpha (center_rows X) (center y))\<rparr>)"
  unfolding LinearRegression_fit_def Ridge_fit_def check_Fin map_reals_Fin reals_Fin Let_def
  by auto

lemma predict_Fin:
  "predict m (map (map Fin) X) =
     (if X = [] \<or> ncols X = 0 \<or> list_ex (\<lambda>r. length r \<noteq> length (coef m)) X
      then Inl ValueError
      else Inr (map (\<lambda>r. dot r (coef m) + intercept m) X))"
  unfolding predict_def check_Fin map_reals_Fin
  by (auto simp: list_ex_iff)

lemma metrics_Fin:
  "r2_score (map Fin y) p =
     (if y = [] \<or> length p \<noteq> length y then Inl ValueError
      else if length p < 2 then Inr None
      else let numerator = (\<Sum>(t, p) \<leftarrow> zip y p. (t - p)\<^sup>2);
               denominator = (\<Sum>t \<leftarrow> y. (t - mean y)\<^sup>2)
           in Inr (Some (if numerator = 0 then 1
                         else if denominator = 0 then 0
                         else 1 - numerator / denominator)))"
  "mean_absolute_error (map Fin y) p =
     (if y = [] \<or> length p \<noteq> length y then Inl ValueError
      else Inr ((\<Sum>(t, p) \<leftarrow> zip y p. \<bar>t - p\<bar>) / real (length y)))"
  unfolding r2_score_def mean_absolute_error_def reals_Fin
  by (simp_all add: isfinite_Fin Let_def)

lemma transform_Fin:
  "PolynomialFeatures_fit_transform d (map (map Fin) X) =
     (if X = [] \<or> ncols X = 0 then Inl ValueError
      else Inr (map (map Fin) (map (poly_row d) X)))"
  unfolding PolynomialFeatures_fit_transform_def check_Fin
  by (simp add: reals_Fin comp_def)







lemma run_analysis_no_rows:
  assumes "set INPUT_COLS \<subseteq> set (columns (df a))" "rows (df a) = []"
    and "c \<in> set OUTPUT_COLS" "c \<in> set (columns (df a))"
  shows "run_analysis L a = Inl ValueError"
  unfolding run_analysis_def
proof (rule run_loop_abort)
  show "\<exists>c \<in> set OUTPUT_COLS. c \<in> set (columns (df a))"
    using assms(3,4) by blast
  show "\<forall>c \<in> set OUTPUT_COLS. c \<in> set (columns (df a)) \<longrightarrow> analyze_linear L a c = Inl ValueError"
    using analyze_linear_no_rows [OF assms(1) _ assms(2)] by blast
qed

lemma run_analysis_key_error:
  assumes "\<not> set INPUT_COLS \<subseteq> set (columns (df a))"
    and "c \<in> set OUTPUT_COLS" "c \<in> set (columns (df a))"
  shows "run_analysis L a
           = Inl (KeyError (filter (\<lambda>k. k \<notin> set (columns (df a))) INPUT_COLS))"
  unfolding run_analysis_def
proof (rule run_loop_abort)
  show "\<exists>c \<in> set OUTPUT_COLS. c \<in> set (columns (df a))"
    using assms(2,3) by blast
  show "\<forall>c \<in> set OUTPUT_COLS. c \<in> set (columns (df a)) \<longrightarrow>
      analyze_linear L a c = Inl (KeyError (filter (\<lambda>k. k \<notin> set (columns (df a))) INPUT_COLS))"
    using analyze_linear_key_error [OF assms(1)] by blast
qed

subsection \<open>What a run stores\<close>

text \<open>The analyses read the table only, not the two dictionaries.\<close>

lemma analyze_linear_df:
  assumes "df a = df b"
  shows "analyze_linear L a c = analyze_linear L b c"
  unfolding analyze_linear_def assms by (rule refl)

lemma analyze_polynomial_df:
  assumes "df a = df b"
  shows "analyze_polynomial L a c d = analyze_polynomial L b c d"
  unfolding analyze_polynomial_def assms by (rule refl)

lemma effects_loop_df:
  assumes "df a = df b"
  shows "effects_loop L a c ics out = effects_loop L b c ics out"
proof (induction ics arbitrary: out)
  case Nil
  show ?case by simp
next
  case (Cons ic ics)
  show ?case
    unfolding effects_loop.simps assms Cons.IH by (rule refl)
qed

lemma analyze_single_variable_effects_df:
  assumes "df a = df b"
  shows "analyze_single_variable_effects L a c = analyze_single_variable_effects L b c"
  unfolding analyze_single_variable_effects_def by (rule effects_loop_df [OF assms])

text \<open>One pass of the loop for a column that is in the table.\<close>

lemma run_loop_present:
  assumes "run_loop L (c # cs) (res, out, a) = Inr st" "c \<in> set (columns (df a))"
  obtains m r e pm pt pr pe f eff where
    "analyze_linear L a c = Inr (m, r, e)"
    "analyze_polynomial L a c 2 = Inr (pm, pt, pr, pe)"
    "format_formula m c = Inr f"
    "analyze_single_variable_effects L a c = Inr eff"
    "run_loop L cs
       (res @ [\<lparr>stat = c, r2 = r, mae = e, formula = f\<rparr>],
        out @ [Rule, Analyzing c, Rule, LinearModel r e, FormulaLine f, PolynomialModel pr pe,
               (if float_gt (float_sub pr r) 0.02 then PolynomialBetter (float_sub pr r)
                else LinearSufficient (float_sub pr r))] @ eff,
        a\<lparr>models := AList.update c m (models a),
          formulas := AList.update c f (formulas a)\<rparr>) = Inr st"
proof -
  from assms obtain m r e where lin: "analyze_linear L a c = Inr (m, r, e)"
    by (cases "analyze_linear L a c") auto
  from assms lin obtain pm pt pr pe
    where pol: "analyze_polynomial L a c 2 = Inr (pm, pt, pr, pe)"
    by (cases "analyze_polynomial L a c 2") auto
  from assms lin pol obtain f where f: "format_formula m c = Inr f"
    by (cases "format_formula m c") auto
  define a1 where "a1 = a\<lparr>models := AList.update c m (models a),
                           formulas := AList.update c f (formulas a)\<rparr>"
  from assms lin pol f obtain eff
    where eff: "analyze_single_variable_effects L a1 c = Inr eff"
    by (cases "analyze_single_variable_effects L a1 c") (auto simp: a1_def Let_def)
  have d: "df a1 = df a" by (simp add: a1_def)
  from analyze_single_variable_effects_df [OF d, of L c] eff
  have eff': "analyze_single_variable_effects L a c = Inr eff" by simp
  from assms lin pol f eff
  have "run_loop L cs
       (res @ [\<lparr>stat = c, r2 = r, mae = e, formula = f\<rparr>],
        out @ [Rule, Analyzing c, Rule, LinearModel r e, FormulaLine f, PolynomialModel pr pe,
               (if float_gt (float_sub pr r) 0.02 then PolynomialBetter (float_sub pr r)
                else LinearSufficient (float_sub pr r))] @ eff, a1) = Inr st"
    by (simp add: a1_def Let_def)
  with lin pol f eff' that show thesis
    unfolding a1_def by blast
qed

lemma run_loop_keeps_df:
  "run_loop L cs (res, out, a) = Inr (res', out', a') \<Longrightarrow> df a' = df a"
proof (induction cs arbitrary: res out a)
  case Nil
  then show ?case by simp
next
  case (Cons c cs)
  show ?case
  proof (cases "c \<in> set (columns (df a))")
    case False
    with Cons show ?thesis by simp
  next
    case True
    from Cons.prems True obtain res1 out1 m f
      where "run_loop L cs (res1, out1,
               a\<lparr>models := AList.update c m (models a),
                 formulas := AList.update c f (formulas a)\<rparr>) = Inr (res', out', a')"
      by (rule run_loop_present)
    from Cons.IH [OF this] show ?thesis by simp
  qed
qed

lemma run_loop_appends:
  "run_loop L cs (res, out, a) = Inr (res', out', a') \<Longrightarrow>
   \<exists>dr dl. res' = res @ dr \<and> out' = out @ dl"
proof (induction cs arbitrary: res out a)
  case Nil
  then show ?case by simp
next
  case (Cons c cs)
  show ?case
  proof (cases "c \<in> set (columns (df a))")
    case False
    with Cons.prems have "run_loop L cs (res, out @ [Skipping c], a) = Inr (res', out', a')"
      by simp
    from Cons.IH [OF this] show ?thesis by auto
  next
    case True
    from Cons.prems True obtain x ls a1
      where "run_loop L cs (res @ [x], out @ ls, a1) = Inr (res', out', a')"
      by (rule run_loop_present)
    from Cons.IH [OF this] show ?thesis by auto
  qed
qed

lemma run_loop_other_keys:
  "run_loop L cs (res, out, a) = Inr (res', out', a') \<Longrightarrow> k \<notin> set cs \<Longrightarrow>
   map_of (models a') k = map_of (models a) k \<and> map_of (formulas a') k = map_of (formulas a) k"
proof (induction cs arbitrary: res out a)
  case Nil
  then show ?case by simp
next
  case (Cons c cs)
  from Cons.prems(2) have k: "k \<noteq> c" "k \<notin> set cs" by auto
  show ?case
  proof (cases "c \<in> set (columns (df a))")
    case False
    with Cons.prems have "run_loop L cs (res, out @ [Skipping c], a) = Inr (res', out', a')"
      by simp
    from Cons.IH [OF this k(2)] show ?thesis .
  next
    case True
    from Cons.prems(1) True obtain res1 out1 m f
      where "run_loop L cs (res1, out1,
               a\<lparr>models := AList.update c m (models a),
                 formulas := AList.update c f (formulas a)\<rparr>) = Inr (res', out', a')"
      by (rule run_loop_present)
    from Cons.IH [OF this k(2)] k(1) show ?thesis
      by (simp add: update_conv')
  qed
qed

lemma run_loop_stores_linear:
  assumes "run_loop L cs (res, out, a) = Inr (res', out', a')" "distinct cs"
    and "c \<in> set cs" "c \<in> set (columns (df a))"
  shows "\<exists>m r e pm pt pr pe f.
           analyze_linear L a c = Inr (m, r, e)
         \<and> analyze_polynomial L a c 2 = Inr (pm, pt, pr, pe)
         \<and> format_formula m c = Inr f
         \<and> map_of (models a') c = Some m
         \<and> map_of (formulas a') c = Some f
         \<and> LinearModel r e \<in> set out'
         \<and> PolynomialModel pr pe \<in> set out'
         \<and> \<lparr>stat = c, r2 = r, mae = e, formula = f\<rparr> \<in> set res'"
  using assms
proof (induction cs arbitrary: res out a)
  case Nil
  then show ?case by simp
next
  case (Cons c0 cs)
  from Cons.prems(2) have d: "c0 \<notin> set cs" "distinct cs" by auto
  show ?case
  proof (cases "c0 \<in> set (columns (df a))")
    case False
    with Cons.prems have run: "run_loop L cs (res, out @ [Skipping c0], a) = Inr (res', out', a')"
      and "c \<in> set cs" by auto
    from Cons.IH [OF run d(2) this(2) Cons.prems(4)] show ?thesis .
  next
    case True
    from Cons.prems(1) True obtain m r e pm pt pr pe f eff where
      lin: "analyze_linear L a c0 = Inr (m, r, e)"
      and pol: "analyze_polynomial L a c0 2 = Inr (pm, pt, pr, pe)"
      and f: "format_formula m c0 = Inr f"
      and run: "run_loop L cs
       (res @ [\<lparr>stat = c0, r2 = r, mae = e, formula = f\<rparr>],
        out @ [Rule, Analyzing c0, Rule, LinearModel r e, FormulaLine f, PolynomialModel pr pe,
               (if float_gt (float_sub pr r) 0.02 then PolynomialBetter (float_sub pr r)
                else LinearSufficient (float_sub pr r))] @ eff,
        a\<lparr>models := AList.update c0 m (models a),
          formulas := AList.update c0 f (formulas a)\<rparr>) = Inr (res', out', a')"
      by (rule run_loop_present)
    define a1 where "a1 = a\<lparr>models := AList.update c0 m (models a),
                             formulas := AList.update c0 f (formulas a)\<rparr>"
    have dfa1: "df a1 = df a" by (simp add: a1_def)
    show ?thesis
    proof (cases "c = c0")
      case True
      from run_loop_other_keys [OF run d(1)]
      have "map_of (models a') c0 = Some m" "map_of (formulas a') c0 = Some f"
        by (simp_all add: update_conv')
      moreover from run_loop_appends [OF run]
      have "LinearModel r e \<in> set out'" "PolynomialModel pr pe \<in> set out'"
        "\<lparr>stat = c0, r2 = r, mae = e, formula = f\<rparr> \<in> set res'"
        by auto
      ultimately show ?thesis using lin pol f True by blast
    next
      case False
      with Cons.prems(3) have "c \<in> set cs" by simp
      from Cons.IH [OF run [folded a1_def] d(2) this] Cons.prems(4) dfa1
      show ?thesis
        using analyze_linear_df [OF dfa1, of L c] analyze_polynomial_df [OF dfa1, of L c 2]
        by simp
    qed
  qed
qed

subsection \<open>What the reports read\<close>

lemma analyze_linear_Inr:
  assumes "analyze_linear L a c = Inr (m, r, e)"
  obtains X y yp where
    "frame_values (df a) INPUT_COLS = Inr X" "series_values (df a) c = Inr y"
    "LinearRegression_fit L X y = Inr m" "predict m X = Inr yp"
    "r2_score y yp = Inr r" "mean_absolute_error y yp = Inr e"
proof -
  from assms obtain X where X: "frame_values (df a) INPUT_COLS = Inr X"
    by (cases "frame_values (df a) INPUT_COLS") (simp_all add: analyze_linear_def)
  from assms X obtain y where y: "series_values (df a) c = Inr y"
    by (cases "series_values (df a) c") (simp_all add: analyze_linear_def)
  from assms X y obtain m' where m': "LinearRegression_fit L X y = Inr m'"
    by (cases "LinearRegression_fit L X y") (simp_all add: analyze_linear_def)
  from assms X y m' obtain yp where yp: "predict m' X = Inr yp"
    by (cases "predict m' X") (simp_all add: analyze_linear_def)
  from assms X y m' yp obtain r' where r': "r2_score y yp = Inr r'"
    by (cases "r2_score y yp") (simp_all add: analyze_linear_def)
  from assms X y m' yp r' obtain e' where e': "mean_absolute_error y yp = Inr e'"
    by (cases "mean_absolute_error y yp") (simp_all add: analyze_linear_def)
  from assms X y m' yp r' e' have "m' = m" "r' = r" "e' = e"
    by (simp_all add: analyze_linear_def)
  with X y m' yp r' e' that show thesis by blast
qed

text \<open>A model that \<open>analyze_linear\<close> returned has five coefficients.\<close>

lemma analyze_linear_five:
  assumes "analyze_linear L a c = Inr (m, r, e)"
  shows "length (coef m) = 5"
proof -
  from assms obtain X yp where X: "frame_values (df a) INPUT_COLS = Inr X"
    and p: "predict m X = Inr yp"
    by (rule analyze_linear_Inr)
  from p have ne: "X \<noteq> []" and len: "\<forall>r \<in> set X. length r = length (coef m)"
    by (auto simp: predict_def check_array_def list_ex_iff split: if_splits)
  from ne obtain r where "r \<in> set X" by (cases X) auto
  with len frame_values_shape [OF X] show ?thesis
    by (auto simp: length_INPUT_COLS)
qed

lemma predict_single:
  "length (coef m) = 5 \<Longrightarrow>
   predict m [[x1, x2, x3, x4, x5]] =
     (if list_all isfinite [x1, x2, x3, x4, x5]
      then Inr [dot (reals [x1, x2, x3, x4, x5]) (coef m) + intercept m]
      else Inl ValueError)"
  by (simp add: predict_def check_array_def ncols_def)

lemma update_fresh: "k \<notin> fst ` set al \<Longrightarrow> AList.update k v al = al @ [(k, v)]"
  by (induction al) auto

text \<open>
  The loop of \<open>run_analysis\<close>, exactly: started where no stat of the list has an entry
  in the two dictionaries, it appends one result, one model and one formula for each
  stat of the list that is a column, in order, and they are those of \<open>analyze_linear\<close>.
\<close>

lemma run_loop_exact:
  assumes "run_loop L cs (res, out, a) = Inr (res', out', a')" "distinct cs"
    and "\<forall>c \<in> set cs. c \<notin> fst ` set (models a) \<and> c \<notin> fst ` set (formulas a)"
  shows "\<exists>ts. res' = res @ map fst ts
      \<and> models a' = models a @ map (\<lambda>(r, m). (stat r, m)) ts
      \<and> formulas a' = formulas a @ map (\<lambda>(r, m). (stat r, formula r)) ts
      \<and> map (\<lambda>(r, m). stat r) ts = filter (\<lambda>c. c \<in> set (columns (df a))) cs
      \<and> (\<forall>(r, m) \<in> set ts. analyze_linear L a (stat r) = Inr (m, r2 r, mae r)
            \<and> format_formula m (stat r) = Inr (formula r))"
  using assms
proof (induction cs arbitrary: res out a)
  case Nil
  then have "res' = res" "a' = a" by simp_all
  then show ?case by (intro exI [of _ "[]"]) simp
next
  case (Cons c cs)
  from Cons.prems(2) have d: "c \<notin> set cs" "distinct cs" by auto
  show ?case
  proof (cases "c \<in> set (columns (df a))")
    case False
    with Cons.prems(1) have "run_loop L cs (res, out @ [Skipping c], a) = Inr (res', out', a')"
      by simp
    from Cons.IH [OF this d(2)] Cons.prems(3) False show ?thesis by simp
  next
    case True
    from Cons.prems(1) True obtain m r e pm pt pr pe f eff where
      lin: "analyze_linear L a c = Inr (m, r, e)"
      and f: "format_formula m c = Inr f"
      and run: "run_loop L cs
       (res @ [\<lparr>stat = c, r2 = r, mae = e, formula = f\<rparr>],
        out @ [Rule, Analyzing c, Rule, LinearModel r e, FormulaLine f, PolynomialModel pr pe,
               (if float_gt (float_sub pr r) 0.02 then PolynomialBetter (float_sub pr r)
                else LinearSufficient (float_sub pr r))] @ eff,
        a\<lparr>models := AList.update c m (models a),
          formulas := AList.update c f (formulas a)\<rparr>) = Inr (res', out', a')"
      by (rule run_loop_present)
    define a1 where "a1 = a\<lparr>models := AList.update c m (models a),
                             formulas := AList.update c f (formulas a)\<rparr>"
    define r0 where "r0 = \<lparr>stat = c, r2 = r, mae = e, formula = f\<rparr>"
    from Cons.prems(3) have fresh: "c \<notin> fst ` set (models a)" "c \<notin> fst ` set (formulas a)"
      by simp_all
    have a1: "df a1 = df a" "models a1 = models a @ [(c, m)]"
      "formulas a1 = formulas a @ [(c, f)]"
      using fresh by (simp_all add: a1_def update_fresh)
    have "\<forall>k \<in> set cs. k \<notin> fst ` set (models a1) \<and> k \<notin> fst ` set (formulas a1)"
      using Cons.prems(3) d(1) unfolding a1 by auto
    from Cons.IH [OF run [folded a1_def r0_def] d(2) this]
    obtain ts where ts: "res' = (res @ [r0]) @ map fst ts"
      "models a' = models a1 @ map (\<lambda>(r, m). (stat r, m)) ts"
      "formulas a' = formulas a1 @ map (\<lambda>(r, m). (stat r, formula r)) ts"
      "map (\<lambda>(r, m). stat r) ts = filter (\<lambda>c. c \<in> set (columns (df a1))) cs"
      "\<forall>(r, m) \<in> set ts. analyze_linear L a1 (stat r) = Inr (m, r2 r, mae r)
            \<and> format_formula m (stat r) = Inr (formula r)"
      by blast
    have same: "analyze_linear L a1 k = analyze_linear L a k" for k
      by (rule analyze_linear_df [OF a1(1)])
    have r0: "stat r0 = c" "r2 r0 = r" "mae r0 = e" "formula r0 = f"
      by (simp_all add: r0_def)
    show ?thesis
    proof (intro exI [of _ "(r0, m) # ts"] conjI)
      show "res' = res @ map fst ((r0, m) # ts)" using ts(1) by simp
      show "models a' = models a @ map (\<lambda>(r, m). (stat r, m)) ((r0, m) # ts)"
        using ts(2) a1(2) r0 by simp
      show "formulas a' = formulas a @ map (\<lambda>(r, m). (stat r, formula r)) ((r0, m) # ts)"
        using ts(3) a1(3) r0 by simp
      show "map (\<lambda>(r, m). stat r) ((r0, m) # ts)
              = filter (\<lambda>c. c \<in> set (columns (df a))) (c # cs)"
        using ts(4) a1(1) True r0 by simp
      show "\<forall>(r, m) \<in> set ((r0, m) # ts).
              analyze_linear L a (stat r) = Inr (m, r2 r, mae r)
              \<and> format_formula m (stat r) = Inr (formula r)"
        using ts(5) lin f r0 unfolding same by simp
    qed
  qed
qed

text \<open>
  A loop over a list of keys that looks each key up and skips the absent ones visits
  the entries of the dictionary, when the dictionary holds the present keys in order.
\<close>

lemma lookup_walk:
  assumes "map fst al = filter (\<lambda>k. f k \<noteq> None) ks" "\<forall>(k, v) \<in> set al. f k = Some v"
  shows "concat (map (\<lambda>k. case f k of None \<Rightarrow> [] | Some v \<Rightarrow> [g k v]) ks)
           = map (\<lambda>(k, v). g k v) al"
  using assms
proof (induction ks arbitrary: al)
  case Nil
  then show ?case by simp
next
  case (Cons k ks)
  show ?case
  proof (cases "f k")
    case None
    with Cons.prems have "map fst al = filter (\<lambda>k. f k \<noteq> None) ks" by simp
    from Cons.IH [OF this Cons.prems(2)] None show ?thesis by simp
  next
    case (Some v)
    with Cons.prems(1) obtain v' al' where al: "al = (k, v') # al'"
      and al': "map fst al' = filter (\<lambda>k. f k \<noteq> None) ks"
      by (cases al) auto
    from Cons.prems(2) al Some have v: "v' = v" and rest: "\<forall>(k, v) \<in> set al'. f k = Some v"
      by auto
    from Cons.IH [OF al' rest] Some al v show ?thesis by simp
  qed
qed

lemma prediction_walk:
  assumes "map fst al = filter (\<lambda>k. map_of (models a) k \<noteq> None) ks"
    and "\<forall>(k, v) \<in> set al. map_of (models a) k = Some v \<and> predict v X = Inr [p v]"
  shows "prediction_loop a X ks out = Inr (out @ map (\<lambda>(k, v). Prediction k (p v)) al)"
  using assms
proof (induction ks arbitrary: al out)
  case Nil
  then show ?case by simp
next
  case (Cons k ks)
  show ?case
  proof (cases "map_of (models a) k")
    case None
    with Cons.prems have "map fst al = filter (\<lambda>k. map_of (models a) k \<noteq> None) ks" by simp
    from Cons.IH [OF this Cons.prems(2)] None show ?thesis by simp
  next
    case (Some v)
    with Cons.prems(1) obtain v' al' where al: "al = (k, v') # al'"
      and al': "map fst al' = filter (\<lambda>k. map_of (models a) k \<noteq> None) ks"
      by (cases al) auto
    from Cons.prems(2) al Some have v: "v' = v" "predict v X = Inr [p v]"
      and rest: "\<forall>(k, v) \<in> set al'. map_of (models a) k = Some v \<and> predict v X = Inr [p v]"
      by auto
    from Cons.IH [OF al' rest, of "out @ [Prediction k (p v)]"] Some al v show ?thesis by simp
  qed
qed

lemma prediction_walk_error:
  assumes "map_of (models a) k = Some v" "k \<in> set ks"
    and "\<forall>k v. map_of (models a) k = Some v \<longrightarrow> predict v X = Inl e"
  shows "prediction_loop a X ks out = Inl e"
  using assms(2)
proof (induction ks arbitrary: out)
  case Nil
  then show ?case by simp
next
  case (Cons k0 ks)
  show ?case
  proof (cases "map_of (models a) k0")
    case None
    with Cons.prems assms(1) have "k \<in> set ks" by auto
    from Cons.IH [OF this] None show ?thesis by simp
  next
    case (Some v0)
    with assms(3) have "predict v0 X = Inl e" by blast
    with Some show ?thesis by simp
  qed
qed

lemma summary_walk:
  assumes "\<forall>(r, m) \<in> set ts. \<exists>X yp y. map_of (models a) (stat r) = Some m
      \<and> frame_values (df a) INPUT_COLS = Inr X \<and> predict m X = Inr yp
      \<and> series_values (df a) (stat r) = Inr y \<and> r2_score y yp = Inr (r2 r)"
  shows "summary_loop a (map (\<lambda>(r, m). (stat r, formula r)) ts) out
           = Inr (out @ map (\<lambda>(r, m). SummaryFormula (formula r) (r2 r)) ts)"
  using assms
proof (induction ts arbitrary: out)
  case Nil
  then show ?case by simp
next
  case (Cons t ts)
  obtain r m where t: "t = (r, m)" by (cases t)
  from Cons.prems t obtain X yp y where s: "map_of (models a) (stat r) = Some m"
    "frame_values (df a) INPUT_COLS = Inr X" "predict m X = Inr yp"
    "series_values (df a) (stat r) = Inr y" "r2_score y yp = Inr (r2 r)"
    by auto
  from Cons.prems have "\<forall>(r, m) \<in> set ts. \<exists>X yp y. map_of (models a) (stat r) = Some m
      \<and> frame_values (df a) INPUT_COLS = Inr X \<and> predict m X = Inr yp
      \<and> series_values (df a) (stat r) = Inr y \<and> r2_score y yp = Inr (r2 r)"
    by simp
  from Cons.IH [OF this, of "out @ [SummaryFormula (formula r) (r2 r)]"] s t
  show ?case by simp
qed

lemma distinct_OUTPUT_COLS: "distinct OUTPUT_COLS"
  by (simp add: OUTPUT_COLS_def)

lemma keys_filter:
  assumes "distinct ks" "map fst al = filter P ks"
  shows "map fst al = filter (\<lambda>k. map_of al k \<noteq> None) ks"
    and "\<forall>(k, v) \<in> set al. map_of al k = Some v"
proof -
  have "set (map fst al) = {k \<in> set ks. P k}"
    unfolding assms(2) by auto
  then have "(map_of al k \<noteq> None) = P k" if "k \<in> set ks" for k
    using that map_of_eq_None_iff [of al k] by auto
  then have "filter (\<lambda>k. map_of al k \<noteq> None) ks = filter P ks"
    by (intro filter_cong) auto
  with assms(2) show "map fst al = filter (\<lambda>k. map_of al k \<noteq> None) ks" by simp
  from assms have "distinct (map fst al)" by simp
  then show "\<forall>(k, v) \<in> set al. map_of al k = Some v" by auto
qed

lemma predict_infinite:
  "\<not> list_all isfinite x \<Longrightarrow> predict m [x] = Inl ValueError"
  by (simp add: predict_def check_array_def)

text \<open>
  C10: a run that ends normally has, for every output stat that is a column of the
  table, fitted the polynomial model and printed its \<open>R\<^sup>2\<close> and MAE, and stored under the
  stat the model that \<open>analyze_linear\<close> returned and the formula of that model, whatever
  the two \<open>R\<^sup>2\<close> are. On an analyzer as the constructor leaves it (both dictionaries
  empty) this is all that is stored: there is a list \<open>ts\<close> of the results paired with
  the linear models, one for each stat that is a column, in the order of \<open>OUTPUT_COLS\<close>,
  such that the results, the stored models and the stored formulas are exactly those
  of \<open>ts\<close>, and the coefficient table, the summary and every prediction are exactly the
  lines computed from the models of \<open>ts\<close> (a prediction for an infinite rating raises
  ValueError instead).
\<close>

theorem stored_model_is_linear_fit:
  assumes "run_analysis L a = Inr (results, out, a')"
  shows "(\<forall>c \<in> set OUTPUT_COLS. c \<in> set (columns (df a)) \<longrightarrow>
      (\<exists>lin_model lin_r2 lin_mae poly_model poly_transform poly_r2 poly_mae f.
          analyze_linear L a c = Inr (lin_model, lin_r2, lin_mae)
        \<and> analyze_polynomial L a c 2 = Inr (poly_model, poly_transform, poly_r2, poly_mae)
        \<and> format_formula lin_model c = Inr f
        \<and> PolynomialModel poly_r2 poly_mae \<in> set out
        \<and> map_of (models a') c = Some lin_model
        \<and> map_of (formulas a') c = Some f
        \<and> \<lparr>stat = c, r2 = lin_r2, mae = lin_mae, formula = f\<rparr> \<in> set results))
    \<and> (models a = [] \<and> formulas a = [] \<longrightarrow>
      (\<exists>ts. results = map fst ts
        \<and> map (\<lambda>(r, m). stat r) ts = filter (\<lambda>c. c \<in> set (columns (df a))) OUTPUT_COLS
        \<and> (\<forall>(r, m) \<in> set ts. analyze_linear L a (stat r) = Inr (m, r2 r, mae r)
              \<and> format_formula m (stat r) = Inr (formula r))
        \<and> models a' = map (\<lambda>(r, m). (stat r, m)) ts
        \<and> formulas a' = map (\<lambda>(r, m). (stat r, formula r)) ts
        \<and> print_coefficient_table a'
            = [Rule, Title ''COEFFICIENT TABLE (for implementation)'', Rule, TableHeader]
              @ map (\<lambda>(r, m). TableRow (stat r) (intercept m) (coef m)) ts
        \<and> print_summary a'
            = Inr ([Rule, Title ''SUMMARY: DERIVED FORMULAS'', Rule, SummaryNote]
                   @ map (\<lambda>(r, m). SummaryFormula (formula r) (r2 r)) ts)
        \<and> (\<forall>x1 x2 x3 x4 x5. test_prediction a' x1 x2 x3 x4 x5 =
              (if ts = [] \<or> list_all isfinite [x1, x2, x3, x4, x5]
               then Inr ([Rule, PredictionHeader [x1, x2, x3, x4, x5], Rule]
                         @ map (\<lambda>(r, m). Prediction (stat r)
                                  (dot (reals [x1, x2, x3, x4, x5]) (coef m) + intercept m)) ts)
               else Inl ValueError))))"
proof (intro conjI ballI impI)
  from assms have run: "run_loop L OUTPUT_COLS
       ([], [Rule, Title ''OOTP RATING -> STAT FORMULA ANALYSIS'', Rule], a)
     = Inr (results, out, a')"
    by (simp add: run_analysis_def)
  have dfa: "df a' = df a" using run_loop_keeps_df [OF run] .
  {
    fix c
    assume c: "c \<in> set OUTPUT_COLS" "c \<in> set (columns (df a))"
    from run_loop_stores_linear [OF run distinct_OUTPUT_COLS c]
    show "\<exists>lin_model lin_r2 lin_mae poly_model poly_transform poly_r2 poly_mae f.
          analyze_linear L a c = Inr (lin_model, lin_r2, lin_mae)
        \<and> analyze_polynomial L a c 2 = Inr (poly_model, poly_transform, poly_r2, poly_mae)
        \<and> format_formula lin_model c = Inr f
        \<and> PolynomialModel poly_r2 poly_mae \<in> set out
        \<and> map_of (models a') c = Some lin_model
        \<and> map_of (formulas a') c = Some f
        \<and> \<lparr>stat = c, r2 = lin_r2, mae = lin_mae, formula = f\<rparr> \<in> set results"
      by blast
  }
  assume fresh: "models a = [] \<and> formulas a = []"
  then have "\<forall>c \<in> set OUTPUT_COLS. c \<notin> fst ` set (models a) \<and> c \<notin> fst ` set (formulas a)"
    by simp
  from run_loop_exact [OF run distinct_OUTPUT_COLS this] fresh
  obtain ts where ts: "results = map fst ts"
    "models a' = map (\<lambda>(r, m). (stat r, m)) ts"
    "formulas a' = map (\<lambda>(r, m). (stat r, formula r)) ts"
    "map (\<lambda>(r, m). stat r) ts = filter (\<lambda>c. c \<in> set (columns (df a))) OUTPUT_COLS"
    "\<forall>(r, m) \<in> set ts. analyze_linear L a (stat r) = Inr (m, r2 r, mae r)
            \<and> format_formula m (stat r) = Inr (formula r)"
    by auto
  have keys: "map fst (models a') = filter (\<lambda>c. c \<in> set (columns (df a))) OUTPUT_COLS"
    unfolding ts(2) using ts(4) by (simp add: comp_def case_prod_unfold)
  note kf = keys_filter [OF distinct_OUTPUT_COLS keys]
  have stored: "map_of (models a') (stat r) = Some m" if "(r, m) \<in> set ts" for r m
  proof -
    from that have "(stat r, m) \<in> set (models a')"
      unfolding ts(2) by force
    with kf(2) show ?thesis by blast
  qed
  have tab: "print_coefficient_table a'
            = [Rule, Title ''COEFFICIENT TABLE (for implementation)'', Rule, TableHeader]
              @ map (\<lambda>(r, m). TableRow (stat r) (intercept m) (coef m)) ts"
  proof -
    have "concat (map (\<lambda>k. case map_of (models a') k of None \<Rightarrow> []
                           | Some v \<Rightarrow> [TableRow k (intercept v) (coef v)]) OUTPUT_COLS)
          = map (\<lambda>(k, v). TableRow k (intercept v) (coef v)) (models a')"
      using kf by (rule lookup_walk)
    also have "\<dots> = map (\<lambda>(r, m). TableRow (stat r) (intercept m) (coef m)) ts"
      unfolding ts(2) by (simp add: comp_def case_prod_unfold)
    finally show ?thesis
      unfolding print_coefficient_table_def by simp
  qed
  have summ: "print_summary a'
            = Inr ([Rule, Title ''SUMMARY: DERIVED FORMULAS'', Rule, SummaryNote]
                   @ map (\<lambda>(r, m). SummaryFormula (formula r) (r2 r)) ts)"
  proof -
    have "\<exists>X yp y. map_of (models a') (stat r) = Some m
        \<and> frame_values (df a') INPUT_COLS = Inr X \<and> predict m X = Inr yp
        \<and> series_values (df a') (stat r) = Inr y \<and> r2_score y yp = Inr (r2 r)"
      if t: "(r, m) \<in> set ts" for r m
    proof -
      from ts(5) t have "analyze_linear L a (stat r) = Inr (m, r2 r, mae r)" by auto
      then obtain X y yp where "frame_values (df a) INPUT_COLS = Inr X"
        "series_values (df a) (stat r) = Inr y" "predict m X = Inr yp"
        "r2_score y yp = Inr (r2 r)"
        by (rule analyze_linear_Inr)
      with stored [OF t] dfa show ?thesis by auto
    qed
    then have "\<forall>(r, m) \<in> set ts. \<exists>X yp y. map_of (models a') (stat r) = Some m
        \<and> frame_values (df a') INPUT_COLS = Inr X \<and> predict m X = Inr yp
        \<and> series_values (df a') (stat r) = Inr y \<and> r2_score y yp = Inr (r2 r)"
      by auto
    from summary_walk [OF this] show ?thesis
      unfolding print_summary_def ts(3) .
  qed
  have pred: "test_prediction a' x1 x2 x3 x4 x5 =
              (if ts = [] \<or> list_all isfinite [x1, x2, x3, x4, x5]
               then Inr ([Rule, PredictionHeader [x1, x2, x3, x4, x5], Rule]
                         @ map (\<lambda>(r, m). Prediction (stat r)
                                  (dot (reals [x1, x2, x3, x4, x5]) (coef m) + intercept m)) ts)
               else Inl ValueError)" for x1 x2 x3 x4 x5
  proof (cases "ts = [] \<or> list_all isfinite [x1, x2, x3, x4, x5]")
    case True
    have "\<forall>(k, v) \<in> set (models a'). map_of (models a') k = Some v
        \<and> predict v [[x1, x2, x3, x4, x5]]
            = Inr [dot (reals [x1, x2, x3, x4, x5]) (coef v) + intercept v]"
    proof (intro ballI, clarify)
      fix k v
      assume kv: "(k, v) \<in> set (models a')"
      then obtain r where t: "(r, v) \<in> set ts" "k = stat r"
        unfolding ts(2) by auto
      with True have fin: "list_all isfinite [x1, x2, x3, x4, x5]" by auto
      from ts(5) t have "analyze_linear L a (stat r) = Inr (v, r2 r, mae r)" by auto
      from analyze_linear_five [OF this] have "length (coef v) = 5" .
      from predict_single [OF this, of x1 x2 x3 x4 x5] fin kf(2) kv
      show "map_of (models a') k = Some v
        \<and> predict v [[x1, x2, x3, x4, x5]]
            = Inr [dot (reals [x1, x2, x3, x4, x5]) (coef v) + intercept v]"
        by auto
    qed
    from prediction_walk [OF kf(1) this,
        of "[Rule, PredictionHeader [x1, x2, x3, x4, x5], Rule]"] True
    show ?thesis
      unfolding test_prediction_def ts(2) by (simp add: comp_def case_prod_unfold)
  next
    case False
    then obtain t ts' where "ts = t # ts'" by (cases ts) auto
    then obtain k v where kv: "(k, v) \<in> set (models a')"
      unfolding ts(2) by (cases t) auto
    with kf have m: "map_of (models a') k = Some v" by blast
    from kv keys have k: "k \<in> set OUTPUT_COLS"
      by (metis (no_types, lifting) filter_is_subset image_eqI list.set_map fst_conv subsetD)
    from False have "\<forall>k v. map_of (models a') k = Some v \<longrightarrow>
        predict v [[x1, x2, x3, x4, x5]] = Inl ValueError"
      using predict_infinite [of "[x1, x2, x3, x4, x5]"] by blast
    from prediction_walk_error [OF m k this] False show ?thesis
      unfolding test_prediction_def by simp
  qed
  from ts tab summ pred
  show "\<exists>ts. results = map fst ts
        \<and> map (\<lambda>(r, m). stat r) ts = filter (\<lambda>c. c \<in> set (columns (df a))) OUTPUT_COLS
        \<and> (\<forall>(r, m) \<in> set ts. analyze_linear L a (stat r) = Inr (m, r2 r, mae r)
              \<and> format_formula m (stat r) = Inr (formula r))
        \<and> models a' = map (\<lambda>(r, m). (stat r, m)) ts
        \<and> formulas a' = map (\<lambda>(r, m). (stat r, formula r)) ts
        \<and> print_coefficient_table a'
            = [Rule, Title ''COEFFICIENT TABLE (for implementation)'', Rule, TableHeader]
              @ map (\<lambda>(r, m). TableRow (stat r) (intercept m) (coef m)) ts
        \<and> print_summary a'
            = Inr ([Rule, Title ''SUMMARY: DERIVED FORMULAS'', Rule, SummaryNote]
                   @ map (\<lambda>(r, m). SummaryFormula (formula r) (r2 r)) ts)
        \<and> (\<forall>x1 x2 x3 x4 x5. test_prediction a' x1 x2 x3 x4 x5 =
              (if ts = [] \<or> list_all isfinite [x1, x2, x3, x4, x5]
               then Inr ([Rule, PredictionHeader [x1, x2, x3, x4, x5], Rule]
                         @ map (\<lambda>(r, m). Prediction (stat r)
                                  (dot (reals [x1, x2, x3, x4, x5]) (coef m) + intercept m)) ts)
               else Inl ValueError))"
    by blast
qed

subsection \<open>A run where the quadratic model fits better\<close>

lemma load_curve_table:
  "load_table L curve_table =
     \<lparr>columns = INPUT_COLS @ [''hr''],
      rows = map (map Fin) [[- 1, 0, 0, 0, 0, 1], [0, 0, 0, 0, 0, 0], [1, 0, 0, 0, 0, 1]]\<rparr>"
  by (simp add: load_table_def dropna_def apply_to_numeric_def dropna_all_def curve_table_def
      to_numeric_def)

lemma values_curve_table:
  "frame_values (load_table L curve_table) INPUT_COLS
     = Inr (map (map Fin) [[- 1, 0, 0, 0, 0], [0, 0, 0, 0, 0], [1, 0, 0, 0, 0]])"
  "series_values (load_table L curve_table) ''hr'' = Inr (map Fin [1, 0, 1])"
  by (simp_all add: load_curve_table frame_values_def series_values_def INPUT_COLS_def)

lemma center_curve:
  "center_rows [[- 1, 0, 0, 0, 0], [0, 0, 0, 0, 0], [1, 0, 0, 0, 0]]
     = [[- 1, 0, 0, 0, 0], [0, 0, 0, 0, 0], [1, 0, 0, 0, 0]]"
  "col_means [[- 1, 0, 0, 0, 0], [0, 0, 0, 0, 0], [1, 0, 0, 0, 0]] = [0, 0, 0, 0, 0]"
  "center [1, 0, 1] = [1 / 3, - (2 / 3), 1 / 3]"
  "mean [1, 0, 1] = 2 / 3"
  by (simp_all add: center_rows_def col_means_def ncols_def mean_def center_def upt_rec)

lemma lstsq_curve:
  "lstsq_orthogonal [[- 1, 0, 0, 0, 0], [0, 0, 0, 0, 0], [1, 0, 0, 0, 0]]
     [1 / 3, - (2 / 3), 1 / 3] = [0, 0, 0, 0, 0]"
  by (simp add: lstsq_orthogonal_def column_def ncols_def dot_def upt_rec)

lemma fit_curve:
  "LinearRegression_fit orthogonal_library
      (map (map Fin) [[- 1, 0, 0, 0, 0], [0, 0, 0, 0, 0], [1, 0, 0, 0, 0]]) (map Fin [1, 0, 1])
     = Inr \<lparr>coef = [0, 0, 0, 0, 0], intercept = 2 / 3\<rparr>"
  unfolding fit_Fin
  by (simp add: ncols_def center_curve orthogonal_library_def lstsq_curve dot_def)

lemma analyze_linear_curve:
  "analyze_linear orthogonal_library curve_analyzer ''hr''
     = Inr (\<lparr>coef = [0, 0, 0, 0, 0], intercept = 2 / 3\<rparr>, Some 0, 4 / 9)"
  unfolding analyze_linear_def curve_analyzer_def df_init values_curve_table sum.case fit_curve
    predict_Fin metrics_Fin
  by (simp add: ncols_def dot_def mean_def power2_eq_square)

lemma poly_curve:
  "PolynomialFeatures_fit_transform 2
     (map (map Fin) [[- 1, 0, 0, 0, 0], [0, 0, 0, 0, 0], [1, 0, 0, 0, 0]])
     = Inr (map (map Fin)
           [[- 1, 0, 0, 0, 0, 1, 0, 0, 0, 0, 0, 0, 0, 0, 0, 0, 0, 0, 0, 0],
            [0, 0, 0, 0, 0, 0, 0, 0, 0, 0, 0, 0, 0, 0, 0, 0, 0, 0, 0, 0],
            [1, 0, 0, 0, 0, 1, 0, 0, 0, 0, 0, 0, 0, 0, 0, 0, 0, 0, 0, 0]])"
  unfolding transform_Fin
  by (simp add: ncols_def poly_row_two)

lemma center_poly_curve:
  "center_rows [[- 1, 0, 0, 0, 0, 1, 0, 0, 0, 0, 0, 0, 0, 0, 0, 0, 0, 0, 0, 0],
            [0, 0, 0, 0, 0, 0, 0, 0, 0, 0, 0, 0, 0, 0, 0, 0, 0, 0, 0, 0],
            [1, 0, 0, 0, 0, 1, 0, 0, 0, 0, 0, 0, 0, 0, 0, 0, 0, 0, 0, 0]]
     = [[- 1, 0, 0, 0, 0, 1 / 3, 0, 0, 0, 0, 0, 0, 0, 0, 0, 0, 0, 0, 0, 0],
        [0, 0, 0, 0, 0, - (2 / 3), 0, 0, 0, 0, 0, 0, 0, 0, 0, 0, 0, 0, 0, 0],
        [1, 0, 0, 0, 0, 1 / 3, 0, 0, 0, 0, 0, 0, 0, 0, 0, 0, 0, 0, 0, 0]]"
  "col_means [[- 1, 0, 0, 0, 0, 1, 0, 0, 0, 0, 0, 0, 0, 0, 0, 0, 0, 0, 0, 0],
            [0, 0, 0, 0, 0, 0, 0, 0, 0, 0, 0, 0, 0, 0, 0, 0, 0, 0, 0, 0],
            [1, 0, 0, 0, 0, 1, 0, 0, 0, 0, 0, 0, 0, 0, 0, 0, 0, 0, 0, 0]]
     = [0, 0, 0, 0, 0, 2 / 3, 0, 0, 0, 0, 0, 0, 0, 0, 0, 0, 0, 0, 0, 0]"
  by (simp_all add: center_rows_def col_means_def ncols_def mean_def upt_rec)

lemma ridge_curve:
  "ridge_orthogonal 1
       [[- 1, 0, 0, 0, 0, 1 / 3, 0, 0, 0, 0, 0, 0, 0, 0, 0, 0, 0, 0, 0, 0],
        [0, 0, 0, 0, 0, - (2 / 3), 0, 0, 0, 0, 0, 0, 0, 0, 0, 0, 0, 0, 0, 0],
        [1, 0, 0, 0, 0, 1 / 3, 0, 0, 0, 0, 0, 0, 0, 0, 0, 0, 0, 0, 0, 0]]
       [1 / 3, - (2 / 3), 1 / 3]
     = [0, 0, 0, 0, 0, 2 / 5, 0, 0, 0, 0, 0, 0, 0, 0, 0, 0, 0, 0, 0, 0]"
  by (simp add: ridge_orthogonal_def column_def ncols_def dot_def upt_rec)

lemma ridge_fit_curve:
  "Ridge_fit orthogonal_library 1
     (map (map Fin)
       [[- 1, 0, 0, 0, 0, 1, 0, 0, 0, 0, 0, 0, 0, 0, 0, 0, 0, 0, 0, 0],
        [0, 0, 0, 0, 0, 0, 0, 0, 0, 0, 0, 0, 0, 0, 0, 0, 0, 0, 0, 0],
        [1, 0, 0, 0, 0, 1, 0, 0, 0, 0, 0, 0, 0, 0, 0, 0, 0, 0, 0, 0]]) (map Fin [1, 0, 1])
     = Inr \<lparr>coef = [0, 0, 0, 0, 0, 2 / 5, 0, 0, 0, 0, 0, 0, 0, 0, 0, 0, 0, 0, 0, 0],
            intercept = 2 / 5\<rparr>"
  unfolding fit_Fin
  by (simp add: ncols_def center_poly_curve center_curve orthogonal_library_def ridge_curve
      dot_def)

lemma analyze_polynomial_curve:
  "analyze_polynomial orthogonal_library curve_analyzer ''hr'' 2
     = Inr (\<lparr>coef = [0, 0, 0, 0, 0, 2 / 5, 0, 0, 0, 0, 0, 0, 0, 0, 0, 0, 0, 0, 0, 0],
             intercept = 2 / 5\<rparr>, 2, Some (16 / 25), 4 / 15)"
  unfolding analyze_polynomial_def curve_analyzer_def df_init values_curve_table sum.case
    poly_curve ridge_fit_curve predict_Fin metrics_Fin
  by (simp add: ncols_def dot_def mean_def power2_eq_square)

lemma curve_analyzer_facts:
  "set INPUT_COLS \<subseteq> set (columns (df curve_analyzer))"
  "''hr'' \<in> set (columns (df curve_analyzer))"
  "rows (df curve_analyzer) \<noteq> []"
  "finite_frame (df curve_analyzer)"
  "length (rows (df curve_analyzer)) = 3"
  "filter (\<lambda>c. c \<in> set (columns (df curve_analyzer))) OUTPUT_COLS = [''hr'']"
  "models curve_analyzer = []" "formulas curve_analyzer = []"
  by (auto simp: curve_analyzer_def df_init load_curve_table finite_frame_def INPUT_COLS_def
      OUTPUT_COLS_def FormulaAnalyzer_init_def Let_def)

lemma format_formula_curve:
  "format_formula \<lparr>coef = [0, 0, 0, 0, 0], intercept = 2 / 3\<rparr> ''hr'' = Inr ''hr = 0.67 ''"
proof -
  have "format_f 2 (2 / 3) = ''0.67''"
    by (simp add: format_f_eval)
  moreover have "visible_terms [0, 0, 0, 0, 0] = []"
    by (simp add: visible_terms_def upt_rec)
  ultimately show ?thesis
    using format_formula_five [of "\<lparr>coef = [0, 0, 0, 0, 0], intercept = 2 / 3\<rparr>" "''hr''"]
    by simp
qed

theorem stored_model_is_linear_fit_witness:
  "\<exists>results out a'.
      run_analysis orthogonal_library curve_analyzer = Inr (results, out, a')
    \<and> models curve_analyzer = [] \<and> formulas curve_analyzer = []
    \<and> analyze_polynomial orthogonal_library curve_analyzer ''hr'' 2
        = Inr (\<lparr>coef = [0, 0, 0, 0, 0, 2 / 5, 0, 0, 0, 0, 0, 0, 0, 0, 0, 0, 0, 0, 0, 0],
                intercept = 2 / 5\<rparr>, 2, Some (16 / 25), 4 / 15)
    \<and> PolynomialModel (Some (16 / 25)) (4 / 15) \<in> set out
    \<and> results = [\<lparr>stat = ''hr'', r2 = Some 0, mae = 4 / 9, formula = ''hr = 0.67 ''\<rparr>]
    \<and> models a' = [(''hr'', \<lparr>coef = [0, 0, 0, 0, 0], intercept = 2 / 3\<rparr>)]
    \<and> formulas a' = [(''hr'', ''hr = 0.67 '')]
    \<and> print_coefficient_table a'
        = [Rule, Title ''COEFFICIENT TABLE (for implementation)'', Rule, TableHeader,
           TableRow ''hr'' (2 / 3) [0, 0, 0, 0, 0]]
    \<and> print_summary a'
        = Inr [Rule, Title ''SUMMARY: DERIVED FORMULAS'', Rule, SummaryNote,
               SummaryFormula ''hr = 0.67 '' (Some 0)]
    \<and> test_prediction a' (Fin 50) (Fin 50) (Fin 50) (Fin 50) (Fin 125)
        = Inr [Rule, PredictionHeader [Fin 50, Fin 50, Fin 50, Fin 50, Fin 125], Rule,
               Prediction ''hr'' (2 / 3)]
    \<and> test_prediction a' PosInf (Fin 50) (Fin 50) (Fin 50) (Fin 125) = Inl ValueError"
proof -
  from run_loop_rows [OF solver_shapes_orthogonal curve_analyzer_facts(1,3,4)]
  obtain results out a' where
    run: "run_analysis orthogonal_library curve_analyzer = Inr (results, out, a')"
    unfolding run_analysis_def by blast
  have hr: "''hr'' \<in> set OUTPUT_COLS" by (simp add: OUTPUT_COLS_def)
  note fact0 = stored_model_is_linear_fit [OF run]
  from fact0 [THEN conjunct1, rule_format, OF hr curve_analyzer_facts(2)]
  obtain pm pt pr pe where p:
    "analyze_polynomial orthogonal_library curve_analyzer ''hr'' 2 = Inr (pm, pt, pr, pe)"
    "PolynomialModel pr pe \<in> set out"
    by blast
  from p(1) [unfolded analyze_polynomial_curve]
  have pol: "pr = Some (16 / 25)" "pe = 4 / 15"
    by (simp_all only: sum.inject prod.inject)
  from fact0 [THEN conjunct2, rule_format, OF conjI, OF curve_analyzer_facts(7,8)]
  obtain ts where ts: "results = map fst ts"
    "map (\<lambda>(r, m). stat r) ts = [''hr'']"
    "\<forall>(r, m) \<in> set ts.
        analyze_linear orthogonal_library curve_analyzer (stat r) = Inr (m, r2 r, mae r)
      \<and> format_formula m (stat r) = Inr (formula r)"
    "models a' = map (\<lambda>(r, m). (stat r, m)) ts"
    "formulas a' = map (\<lambda>(r, m). (stat r, formula r)) ts"
    "print_coefficient_table a'
        = [Rule, Title ''COEFFICIENT TABLE (for implementation)'', Rule, TableHeader]
          @ map (\<lambda>(r, m). TableRow (stat r) (intercept m) (coef m)) ts"
    "print_summary a'
        = Inr ([Rule, Title ''SUMMARY: DERIVED FORMULAS'', Rule, SummaryNote]
               @ map (\<lambda>(r, m). SummaryFormula (formula r) (r2 r)) ts)"
    "\<forall>x1 x2 x3 x4 x5. test_prediction a' x1 x2 x3 x4 x5 =
        (if ts = [] \<or> list_all isfinite [x1, x2, x3, x4, x5]
         then Inr ([Rule, PredictionHeader [x1, x2, x3, x4, x5], Rule]
                   @ map (\<lambda>(r, m). Prediction (stat r)
                            (dot (reals [x1, x2, x3, x4, x5]) (coef m) + intercept m)) ts)
         else Inl ValueError)"
    unfolding curve_analyzer_facts(6) by (elim exE conjE) (rule that)
  from ts(2) obtain r0 m0 where t: "ts = [(r0, m0)]" and s: "stat r0 = ''hr''"
    by (cases ts) auto
  from ts(3) t s have l:
    "analyze_linear orthogonal_library curve_analyzer ''hr'' = Inr (m0, r2 r0, mae r0)"
    "format_formula m0 ''hr'' = Inr (formula r0)"
    by simp_all
  from l(1) [unfolded analyze_linear_curve]
  have lin: "m0 = \<lparr>coef = [0, 0, 0, 0, 0], intercept = 2 / 3\<rparr>" "r2 r0 = Some 0"
    "mae r0 = 4 / 9"
    by (simp_all only: sum.inject prod.inject)
  from l(2) [unfolded lin format_formula_curve] have f: "formula r0 = ''hr = 0.67 ''"
    by (simp only: sum.inject)
  have r0: "r0 = \<lparr>stat = ''hr'', r2 = Some 0, mae = 4 / 9, formula = ''hr = 0.67 ''\<rparr>"
    using s lin(2,3) f by (cases r0) simp
  have res: "results = [\<lparr>stat = ''hr'', r2 = Some 0, mae = 4 / 9, formula = ''hr = 0.67 ''\<rparr>]"
    unfolding ts(1) t r0 by simp
  have mods: "models a' = [(''hr'', \<lparr>coef = [0, 0, 0, 0, 0], intercept = 2 / 3\<rparr>)]"
    unfolding ts(4) t by (simp add: s lin(1))
  have forms: "formulas a' = [(''hr'', ''hr = 0.67 '')]"
    unfolding ts(5) t by (simp add: s f)
  have tab: "print_coefficient_table a'
        = [Rule, Title ''COEFFICIENT TABLE (for implementation)'', Rule, TableHeader,
           TableRow ''hr'' (2 / 3) [0, 0, 0, 0, 0]]"
    unfolding ts(6) t by (simp add: s lin(1))
  have summ: "print_summary a'
        = Inr [Rule, Title ''SUMMARY: DERIVED FORMULAS'', Rule, SummaryNote,
               SummaryFormula ''hr = 0.67 '' (Some 0)]"
    unfolding ts(7) t by (simp add: f lin(2))
  have p1: "test_prediction a' (Fin 50) (Fin 50) (Fin 50) (Fin 50) (Fin 125)
        = Inr [Rule, PredictionHeader [Fin 50, Fin 50, Fin 50, Fin 50, Fin 125], Rule,
               Prediction ''hr'' (2 / 3)]"
    unfolding ts(8) [rule_format] t by (simp add: s lin(1) reals_def dot_def)
  have p2: "test_prediction a' PosInf (Fin 50) (Fin 50) (Fin 50) (Fin 125) = Inl ValueError"
    unfolding ts(8) [rule_format] t by simp
  from run curve_analyzer_facts(7,8) analyze_polynomial_curve p(2) [unfolded pol]
    res mods forms tab summ p1 p2
  show ?thesis by blast
qed

subsection \<open>No guard on the number of rows\<close>







subsection \<open>Data errors\<close>

lemma init_fields:
  "df (fst (FormulaAnalyzer_init L t)) = load_table L t"
  "models (fst (FormulaAnalyzer_init L t)) = []"
  "formulas (fst (FormulaAnalyzer_init L t)) = []"
  by (simp_all add: FormulaAnalyzer_init_def Let_def)

lemma init_pair:
  "FormulaAnalyzer_init L t = (fst (FormulaAnalyzer_init L t), snd (FormulaAnalyzer_init L t))"
  by simp

lemma prediction_loop_no_models:
  "models a = [] \<Longrightarrow> prediction_loop a X cs out = Inr out"
  by (induction cs arbitrary: out) simp_all

lemma test_prediction_no_models:
  "models a = [] \<Longrightarrow>
   test_prediction a x1 x2 x3 x4 x5 = Inr [Rule, PredictionHeader [x1, x2, x3, x4, x5], Rule]"
  by (simp add: test_prediction_def prediction_loop_no_models)

lemma print_summary_no_formulas:
  "formulas a = [] \<Longrightarrow>
   print_summary a = Inr [Rule, Title ''SUMMARY: DERIVED FORMULAS'', Rule, SummaryNote]"
  by (simp add: print_summary_def)

lemma print_coefficient_table_no_models:
  "models a = [] \<Longrightarrow>
   print_coefficient_table a
     = [Rule, Title ''COEFFICIENT TABLE (for implementation)'', Rule, TableHeader]"
  by (simp add: print_coefficient_table_def OUTPUT_COLS_def)

lemma run_analysis_all_skipped:
  "set OUTPUT_COLS \<inter> set (columns (df a)) = {} \<Longrightarrow>
   run_analysis L a
     = Inr ([], [Rule, Title ''OOTP RATING -> STAT FORMULA ANALYSIS'', Rule]
                @ map Skipping OUTPUT_COLS, a)"
  unfolding run_analysis_def by (rule run_loop_all_skipped) auto

lemma main_run_error:
  "run_analysis L (fst (FormulaAnalyzer_init L t)) = Inl e \<Longrightarrow> main L (Inr t) = Inl e"
  by (cases "FormulaAnalyzer_init L t") (simp add: main_def)

lemma main_no_output_columns:
  assumes "set OUTPUT_COLS \<inter> set (columns t) = {}"
  shows "main L (Inr t)
     = Inr (snd (FormulaAnalyzer_init L t)
            @ [Rule, Title ''OOTP RATING -> STAT FORMULA ANALYSIS'', Rule]
            @ map Skipping OUTPUT_COLS
            @ [Rule, Title ''SUMMARY: DERIVED FORMULAS'', Rule, SummaryNote]
            @ [Rule, Title ''COEFFICIENT TABLE (for implementation)'', Rule, TableHeader]
            @ [Rule, PredictionHeader [Fin 50, Fin 50, Fin 50, Fin 50, Fin 125], Rule]
            @ [Rule, PredictionHeader [Fin 80, Fin 80, Fin 80, Fin 80, Fin 220], Rule]
            @ [Rule, PredictionHeader [Fin 20, Fin 20, Fin 20, Fin 20, Fin 30], Rule]
            @ [Rule, Title ''ANALYSIS COMPLETE'', Rule])"
proof -
  obtain a o1 where ini: "FormulaAnalyzer_init L t = (a, o1)"
    by (cases "FormulaAnalyzer_init L t")
  then have a: "a = fst (FormulaAnalyzer_init L t)" and o1: "snd (FormulaAnalyzer_init L t) = o1"
    by simp_all
  have f: "models a = []" "formulas a = []" "df a = load_table L t"
    by (simp_all add: a init_fields)
  with assms have "set OUTPUT_COLS \<inter> set (columns (df a)) = {}"
    by (simp add: columns_load_table)
  from run_analysis_all_skipped [OF this, of L]
  have run: "run_analysis L a
     = Inr ([], [Rule, Title ''OOTP RATING -> STAT FORMULA ANALYSIS'', Rule]
                @ map Skipping OUTPUT_COLS, a)" .
  show ?thesis
    unfolding main_def o1
    by (simp add: ini run print_summary_no_formulas [OF f(2)]
        test_prediction_no_models [OF f(1)] print_coefficient_table_no_models [OF f(1)])
qed

lemma run_loop_skips:
  "run_loop L cs (res, out, a) = Inr (res', out', a') \<Longrightarrow> c \<in> set cs \<Longrightarrow>
   c \<notin> set (columns (df a)) \<Longrightarrow> Skipping c \<in> set out'"
proof (induction cs arbitrary: res out a)
  case Nil
  then show ?case by simp
next
  case (Cons c0 cs)
  show ?case
  proof (cases "c0 \<in> set (columns (df a))")
    case False
    with Cons.prems(1)
    have run: "run_loop L cs (res, out @ [Skipping c0], a) = Inr (res', out', a')" by simp
    show ?thesis
    proof (cases "c = c0")
      case True
      with run_loop_appends [OF run] show ?thesis by auto
    next
      case False
      with Cons.prems(2) have "c \<in> set cs" by simp
      from Cons.IH [OF run this Cons.prems(3)] show ?thesis .
    qed
  next
    case True
    with Cons.prems have c: "c \<in> set cs" by auto
    from Cons.prems(1) True obtain res1 out1 m f
      where run: "run_loop L cs (res1, out1,
               a\<lparr>models := AList.update c0 m (models a),
                 formulas := AList.update c0 f (formulas a)\<rparr>) = Inr (res', out', a')"
      by (rule run_loop_present)
    from Cons.IH [OF run c] Cons.prems(3) show ?thesis by simp
  qed
qed

text \<open>
  C2, as the code has it. The constructor returns an analyzer for every table: it checks
  neither the number of rows nor the column names. In \<open>run_analysis\<close> an output stat
  that is no column of the table is skipped with a message and the loop goes on; if no
  output stat is a column, the whole program ends normally. Only when some output stat
  is a column does the run end with an error, and then in the first fit: KeyError if an
  input rating is no column, ValueError if the table has no rows. A file that cannot be
  read is an error at once.
\<close>

theorem loader_reports_no_data_error:
  "df (fst (FormulaAnalyzer_init L t)) = load_table L t
   \<and> models (fst (FormulaAnalyzer_init L t)) = []
   \<and> formulas (fst (FormulaAnalyzer_init L t)) = []
   \<and> (c \<notin> set (columns (df a)) \<longrightarrow>
        run_loop L (c # rest) (res, out, a) = run_loop L rest (res, out @ [Skipping c], a))
   \<and> (set OUTPUT_COLS \<inter> set (columns t) = {} \<longrightarrow>
        main L (Inr t)
        = Inr (snd (FormulaAnalyzer_init L t)
            @ [Rule, Title ''OOTP RATING -> STAT FORMULA ANALYSIS'', Rule]
            @ map Skipping OUTPUT_COLS
            @ [Rule, Title ''SUMMARY: DERIVED FORMULAS'', Rule, SummaryNote]
            @ [Rule, Title ''COEFFICIENT TABLE (for implementation)'', Rule, TableHeader]
            @ [Rule, PredictionHeader [Fin 50, Fin 50, Fin 50, Fin 50, Fin 125], Rule]
            @ [Rule, PredictionHeader [Fin 80, Fin 80, Fin 80, Fin 80, Fin 220], Rule]
            @ [Rule, PredictionHeader [Fin 20, Fin 20, Fin 20, Fin 20, Fin 30], Rule]
            @ [Rule, Title ''ANALYSIS COMPLETE'', Rule]))
   \<and> (set OUTPUT_COLS \<inter> set (columns t) \<noteq> {} \<and> \<not> set INPUT_COLS \<subseteq> set (columns t) \<longrightarrow>
        main L (Inr t) = Inl (KeyError (filter (\<lambda>k. k \<notin> set (columns t)) INPUT_COLS)))
   \<and> (set OUTPUT_COLS \<inter> set (columns t) \<noteq> {} \<and> set INPUT_COLS \<subseteq> set (columns t)
        \<and> rows (load_table L t) = [] \<longrightarrow>
        main L (Inr t) = Inl ValueError)
   \<and> main L (Inl e) = Inl e"
proof (intro conjI impI)
  show "df (fst (FormulaAnalyzer_init L t)) = load_table L t"
    "models (fst (FormulaAnalyzer_init L t)) = []"
    "formulas (fst (FormulaAnalyzer_init L t)) = []"
    by (simp_all add: init_fields)
  show "main L (Inl e) = Inl e" by (simp add: main_def)
next
  assume "c \<notin> set (columns (df a))"
  then show "run_loop L (c # rest) (res, out, a) = run_loop L rest (res, out @ [Skipping c], a)"
    by simp
next
  assume "set OUTPUT_COLS \<inter> set (columns t) = {}"
  then show "main L (Inr t)
        = Inr (snd (FormulaAnalyzer_init L t)
            @ [Rule, Title ''OOTP RATING -> STAT FORMULA ANALYSIS'', Rule]
            @ map Skipping OUTPUT_COLS
            @ [Rule, Title ''SUMMARY: DERIVED FORMULAS'', Rule, SummaryNote]
            @ [Rule, Title ''COEFFICIENT TABLE (for implementation)'', Rule, TableHeader]
            @ [Rule, PredictionHeader [Fin 50, Fin 50, Fin 50, Fin 50, Fin 125], Rule]
            @ [Rule, PredictionHeader [Fin 80, Fin 80, Fin 80, Fin 80, Fin 220], Rule]
            @ [Rule, PredictionHeader [Fin 20, Fin 20, Fin 20, Fin 20, Fin 30], Rule]
            @ [Rule, Title ''ANALYSIS COMPLETE'', Rule])"
    by (rule main_no_output_columns)
next
  assume h: "set OUTPUT_COLS \<inter> set (columns t) \<noteq> {} \<and> \<not> set INPUT_COLS \<subseteq> set (columns t)"
  define a0 where "a0 = fst (FormulaAnalyzer_init L t)"
  have cols: "columns (df a0) = columns t"
    by (simp add: a0_def init_fields columns_load_table)
  from h obtain k where k: "k \<in> set OUTPUT_COLS" "k \<in> set (columns (df a0))"
    unfolding cols by blast
  from h have "\<not> set INPUT_COLS \<subseteq> set (columns (df a0))" unfolding cols by simp
  from run_analysis_key_error [OF this k, of L]
  have "run_analysis L a0 = Inl (KeyError (filter (\<lambda>k. k \<notin> set (columns t)) INPUT_COLS))"
    by (simp add: cols)
  then show "main L (Inr t) = Inl (KeyError (filter (\<lambda>k. k \<notin> set (columns t)) INPUT_COLS))"
    unfolding a0_def by (rule main_run_error)
next
  assume h: "set OUTPUT_COLS \<inter> set (columns t) \<noteq> {} \<and> set INPUT_COLS \<subseteq> set (columns t)
        \<and> rows (load_table L t) = []"
  define a0 where "a0 = fst (FormulaAnalyzer_init L t)"
  have cols: "columns (df a0) = columns t" and rws: "rows (df a0) = rows (load_table L t)"
    by (simp_all add: a0_def init_fields columns_load_table)
  from h obtain k where k: "k \<in> set OUTPUT_COLS" "k \<in> set (columns (df a0))"
    unfolding cols by blast
  from h have "set INPUT_COLS \<subseteq> set (columns (df a0))" "rows (df a0) = []"
    unfolding cols rws by simp_all
  from run_analysis_no_rows [OF this k, of L]
  show "main L (Inr t) = Inl ValueError"
    unfolding a0_def by (rule main_run_error)
qed

lemma init_ratings_header_only:
  "snd (FormulaAnalyzer_init L ratings_header_only)
     = [Loaded 0, InputRanges, Range ''stuff'' None None, Range ''control'' None None,
        Range ''hra'' None None, Range ''movement'' None None, Range ''babip'' None None,
        Blank]"
  by (simp add: FormulaAnalyzer_init_def Let_def load_table_def dropna_def
      apply_to_numeric_def dropna_all_def ratings_header_only_def INPUT_COLS_def
      range_line_def min_of_def max_of_def)

lemma no_output_columns:
  "set OUTPUT_COLS \<inter> set (columns ratings_header_only) = {}"
  by (simp add: ratings_header_only_def INPUT_COLS_def OUTPUT_COLS_def)

lemma no_babip_table_facts:
  "set OUTPUT_COLS \<inter> set (columns no_babip_table) \<noteq> {}"
  "\<not> set INPUT_COLS \<subseteq> set (columns no_babip_table)"
  "filter (\<lambda>k. k \<notin> set (columns no_babip_table)) INPUT_COLS = [''babip'']"
  "length (rows (load_table L no_babip_table)) = 1"
  by (simp_all add: no_babip_table_def INPUT_COLS_def OUTPUT_COLS_def load_table_def
      dropna_def apply_to_numeric_def dropna_all_def to_numeric_def)

lemma header_only_facts:
  "set OUTPUT_COLS \<inter> set (columns header_only) \<noteq> {}"
  "set INPUT_COLS \<subseteq> set (columns header_only)"
  "rows (load_table L header_only) = []"
  by (simp_all add: header_only_def INPUT_COLS_def OUTPUT_COLS_def load_table_def
      dropna_def apply_to_numeric_def dropna_all_def)

theorem loader_reports_no_data_error_witness:
  "rows (load_table orthogonal_library ratings_header_only) = []
   \<and> main orthogonal_library (Inr ratings_header_only)
       = Inr ([Loaded 0, InputRanges, Range ''stuff'' None None, Range ''control'' None None,
               Range ''hra'' None None, Range ''movement'' None None,
               Range ''babip'' None None, Blank]
            @ [Rule, Title ''OOTP RATING -> STAT FORMULA ANALYSIS'', Rule]
            @ map Skipping OUTPUT_COLS
            @ [Rule, Title ''SUMMARY: DERIVED FORMULAS'', Rule, SummaryNote]
            @ [Rule, Title ''COEFFICIENT TABLE (for implementation)'', Rule, TableHeader]
            @ [Rule, PredictionHeader [Fin 50, Fin 50, Fin 50, Fin 50, Fin 125], Rule]
            @ [Rule, PredictionHeader [Fin 80, Fin 80, Fin 80, Fin 80, Fin 220], Rule]
            @ [Rule, PredictionHeader [Fin 20, Fin 20, Fin 20, Fin 20, Fin 30], Rule]
            @ [Rule, Title ''ANALYSIS COMPLETE'', Rule])
   \<and> run_loop orthogonal_library [''bb''] ([], [], line_analyzer)
       = Inr ([], [Skipping ''bb''], line_analyzer)
   \<and> length (rows (load_table orthogonal_library no_babip_table)) = 1
   \<and> main orthogonal_library (Inr no_babip_table) = Inl (KeyError [''babip''])
   \<and> main orthogonal_library (Inr header_only) = Inl ValueError
   \<and> main orthogonal_library (Inl FileNotFoundError) = Inl FileNotFoundError"
proof -
  note e = loader_reports_no_data_error [of orthogonal_library ratings_header_only
      "''bb''" line_analyzer "[]" "[]" "[]" FileNotFoundError]
  note k = loader_reports_no_data_error [of orthogonal_library no_babip_table
      "''bb''" line_analyzer "[]" "[]" "[]" FileNotFoundError]
  note h = loader_reports_no_data_error [of orthogonal_library header_only
      "''bb''" line_analyzer "[]" "[]" "[]" FileNotFoundError]
  have bb: "''bb'' \<notin> set (columns (df line_analyzer))"
    by (simp add: line_analyzer_def df_init load_line_table INPUT_COLS_def)
  have r0: "rows (load_table orthogonal_library ratings_header_only) = []"
    by (simp add: load_table_def dropna_def apply_to_numeric_def dropna_all_def
        ratings_header_only_def)
  from e bb have skip: "run_loop orthogonal_library [''bb''] ([], [], line_analyzer)
       = Inr ([], [Skipping ''bb''], line_analyzer)"
    by simp
  from e no_output_columns
  have m1: "main orthogonal_library (Inr ratings_header_only)
       = Inr (snd (FormulaAnalyzer_init orthogonal_library ratings_header_only)
            @ [Rule, Title ''OOTP RATING -> STAT FORMULA ANALYSIS'', Rule]
            @ map Skipping OUTPUT_COLS
            @ [Rule, Title ''SUMMARY: DERIVED FORMULAS'', Rule, SummaryNote]
            @ [Rule, Title ''COEFFICIENT TABLE (for implementation)'', Rule, TableHeader]
            @ [Rule, PredictionHeader [Fin 50, Fin 50, Fin 50, Fin 50, Fin 125], Rule]
            @ [Rule, PredictionHeader [Fin 80, Fin 80, Fin 80, Fin 80, Fin 220], Rule]
            @ [Rule, PredictionHeader [Fin 20, Fin 20, Fin 20, Fin 20, Fin 30], Rule]
            @ [Rule, Title ''ANALYSIS COMPLETE'', Rule])"
    by blast
  from k no_babip_table_facts(1,2)
  have m2: "main orthogonal_library (Inr no_babip_table)
      = Inl (KeyError (filter (\<lambda>k. k \<notin> set (columns no_babip_table)) INPUT_COLS))"
    by blast
  from h header_only_facts(1,2) header_only_facts(3) [of orthogonal_library]
  have m3: "main orthogonal_library (Inr header_only) = Inl ValueError"
    by blast
  from e have m4: "main orthogonal_library (Inl FileNotFoundError) = Inl FileNotFoundError"
    by blast
  from r0 m1 [unfolded init_ratings_header_only] skip m2 [unfolded no_babip_table_facts(3)]
    m3 m4 no_babip_table_facts(4) [of orthogonal_library]
  show ?thesis by (simp only: simp_thms)
qed

text \<open>
  C2 as stated fails: a file with the five rating columns only and no data row has zero
  retained rows and lacks every output stat, and the program reports no error: every
  output stat is skipped with a message and the run goes on to the summary, the
  coefficient table, the predictions and the closing banner.
\<close>

theorem empty_table_runs_to_completion:
  "rows (load_table orthogonal_library ratings_header_only) = []
   \<and> set OUTPUT_COLS \<inter> set (columns ratings_header_only) = {}
   \<and> main orthogonal_library (Inr ratings_header_only)
       = Inr ([Loaded 0, InputRanges, Range ''stuff'' None None, Range ''control'' None None,
               Range ''hra'' None None, Range ''movement'' None None,
               Range ''babip'' None None, Blank,
               Rule, Title ''OOTP RATING -> STAT FORMULA ANALYSIS'', Rule,
               Skipping ''hits allowed'', Skipping ''hr'', Skipping ''bb'', Skipping ''k'',
               Skipping ''ip'',
               Rule, Title ''SUMMARY: DERIVED FORMULAS'', Rule, SummaryNote,
               Rule, Title ''COEFFICIENT TABLE (for implementation)'', Rule, TableHeader,
               Rule, PredictionHeader [Fin 50, Fin 50, Fin 50, Fin 50, Fin 125], Rule,
               Rule, PredictionHeader [Fin 80, Fin 80, Fin 80, Fin 80, Fin 220], Rule,
               Rule, PredictionHeader [Fin 20, Fin 20, Fin 20, Fin 20, Fin 30], Rule,
               Rule, Title ''ANALYSIS COMPLETE'', Rule])"
proof -
  have "rows (load_table orthogonal_library ratings_header_only) = []"
    by (simp add: load_table_def dropna_def apply_to_numeric_def dropna_all_def
        ratings_header_only_def)
  then show ?thesis
    using main_no_output_columns [OF no_output_columns, of orthogonal_library]
      no_output_columns
    by (simp add: init_ratings_header_only OUTPUT_COLS_def)
qed

subsection \<open>Rounding to a double\<close>

lemma rint_error: "\<bar>of_int (rint r) - r\<bar> \<le> 1 / 2"
proof -
  have "of_int \<lfloor>r\<rfloor> \<le> r" "r < of_int \<lfloor>r\<rfloor> + 1" by linarith+
  then show ?thesis
    unfolding rint_def Let_def by auto
qed

lemma rint_of_int: "rint (of_int n) = n"
  by (simp add: rint_def)


lemma ulp_pos: "0 < ulp x"
  by (simp add: ulp_def)

lemma floor_log2:
  assumes "2 ^ k \<le> \<bar>x\<bar>" "\<bar>x\<bar> < 2 ^ Suc k"
  shows "\<lfloor>log 2 \<bar>x\<bar>\<rfloor> = int k"
proof -
  have pos: "0 < \<bar>x\<bar>"
    using assms(1) by (smt (verit) zero_less_power)
  have "(2::real) powr real_of_int (int k) = 2 ^ k"
    by (simp add: powr_realpow)
  moreover have "(2::real) powr real_of_int (int k + 1) = 2 ^ Suc k"
    using powr_realpow [of 2 "Suc k"] by (simp add: add.commute)
  ultimately show ?thesis
    using assms floor_log_eq_powr_iff [OF pos, of 2 "int k"] by simp
qed

lemma ulp_eval:
  assumes "2 ^ k \<le> \<bar>x\<bar>" "\<bar>x\<bar> < 2 ^ Suc k"
  shows "ulp x = 2 ^ k / 2 ^ 52"
proof -
  have "ulp x = 2 powr (real k - 52)"
    unfolding ulp_def floor_log2 [OF assms] by simp
  also have "\<dots> = 2 powr real k / 2 powr 52"
    by (rule powr_diff)
  also have "\<dots> = 2 ^ k / 2 ^ 52"
    by (simp add: powr_realpow)
  finally show ?thesis .
qed

text \<open>The rounding of a number between \<open>2\<^sup>k\<close> and \<open>2\<^sup>k\<^sup>+\<^sup>1\<close>, for evaluation.\<close>

lemma fl_eval:
  assumes "2 ^ k \<le> \<bar>x\<bar>" "\<bar>x\<bar> < 2 ^ Suc k" "k \<le> 60"
  shows "fl x = Fin (of_int (rint (x * 2 ^ 52 / 2 ^ k)) * 2 ^ k / 2 ^ 52)"
proof -
  define u :: real where "u = 2 ^ k / 2 ^ 52"
  have u: "ulp x = u" "0 < u" by (simp_all add: u_def ulp_eval [OF assms(1,2)])
  define y where "y = of_int (rint (x / u)) * u"
  have "(0::real) < 2 ^ k" by simp
  with assms(1) have "0 < \<bar>x\<bar>" by linarith
  then have x0: "x \<noteq> 0" by auto
  have "\<bar>of_int (rint (x / u)) - x / u\<bar> \<le> 1 / 2" by (rule rint_error)
  then have "\<bar>of_int (rint (x / u)) - x / u\<bar> * u \<le> 1 / 2 * u"
    using u(2) by (intro mult_right_mono) auto
  moreover have "\<bar>of_int (rint (x / u)) - x / u\<bar> * u = \<bar>y - x\<bar>"
  proof -
    have "y - x = (of_int (rint (x / u)) - x / u) * u"
      using u(2) by (simp add: y_def field_simps)
    then show ?thesis using u(2) by (simp add: abs_mult)
  qed
  ultimately have err: "\<bar>y - x\<bar> \<le> u / 2" by simp
  have k60: "(2::real) ^ k \<le> 2 ^ 60"
    using assms(3) by (intro power_increasing) auto
  then have "u \<le> 2 ^ 60" unfolding u_def by (simp add: field_simps)
  moreover from assms(2) k60 have "\<bar>x\<bar> < 2 * 2 ^ 60" by simp
  ultimately have "\<bar>y\<bar> < 3 * 2 ^ 60" using err by linarith
  moreover have "(3::real) * 2 ^ 60 < 2 ^ 1024" by simp
  ultimately have "\<bar>y\<bar> < 2 ^ 1024" by linarith
  then have "\<not> 2 ^ 1024 \<le> y" "\<not> y \<le> - (2 ^ 1024)" by auto
  then have "fl x = Fin y"
    using x0 unfolding fl_def u(1) Let_def y_def [symmetric] by simp
  also have "y = of_int (rint (x * 2 ^ 52 / 2 ^ k)) * 2 ^ k / 2 ^ 52"
    unfolding y_def u_def by (simp add: field_simps)
  finally show ?thesis .
qed

lemma fl_zero: "fl 0 = Fin 0"
  by (simp add: fl_def)


text \<open>The error of one rounding, for a number of magnitude at most \<open>2\<^sup>1\<^sup>6\<close>.\<close>

lemma fl_error:
  assumes "\<bar>x\<bar> \<le> 65536"
  shows "\<exists>e. fl x = Fin (x + e) \<and> \<bar>e\<bar> \<le> 1 / 2 ^ 37"
proof (cases "x = 0")
  case True
  then show ?thesis by (simp add: fl_zero)
next
  case False
  then have pos: "0 < \<bar>x\<bar>" by simp
  define E where "E = \<lfloor>log 2 \<bar>x\<bar>\<rfloor>"
  have E: "2 powr real_of_int E \<le> \<bar>x\<bar>"
    using floor_log_eq_powr_iff [of "\<bar>x\<bar>" 2 E] pos by (simp add: E_def)
  have p16: "(2::real) powr 16 = 65536"
    using powr_realpow [of 2 16] by simp
  have le: "(2::real) powr real_of_int E \<le> 2 powr 16"
    by (simp only: p16) (use E assms in linarith)
  have one: "(1::real) < 2" by simp
  from powr_le_cancel_iff [OF one, THEN iffD1, OF le] have "E \<le> 16" by simp
  then have m: "real_of_int (max E (- 1022)) - 52 \<le> - 36" by simp
  define u where "u = ulp x"
  have u0: "0 < u" by (simp add: u_def ulp_pos)
  have "u \<le> 2 powr (- 36)"
    unfolding u_def ulp_def E_def [symmetric] using m by (intro powr_mono) auto
  also have "(2::real) powr (- 36) = 1 / 2 ^ 36"
    using powr_realpow [of 2 36] by (simp add: powr_minus field_simps)
  finally have u: "u \<le> 1 / 2 ^ 36" .
  define y where "y = of_int (rint (x / u)) * u"
  have "\<bar>of_int (rint (x / u)) - x / u\<bar> \<le> 1 / 2" by (rule rint_error)
  then have "\<bar>of_int (rint (x / u)) - x / u\<bar> * u \<le> 1 / 2 * u"
    using u0 by (intro mult_right_mono) auto
  moreover have "\<bar>of_int (rint (x / u)) - x / u\<bar> * u = \<bar>y - x\<bar>"
  proof -
    have "y - x = (of_int (rint (x / u)) - x / u) * u"
      using u0 by (simp add: y_def field_simps)
    then show ?thesis using u0 by (simp add: abs_mult)
  qed
  ultimately have err: "\<bar>y - x\<bar> \<le> 1 / 2 ^ 37" using u by simp
  have "(1::real) / 2 ^ 37 \<le> 1" by simp
  with err assms have "\<bar>y\<bar> \<le> 65537" by linarith
  moreover have "(65537::real) < 2 ^ 1024" by simp
  ultimately have "\<bar>y\<bar> < 2 ^ 1024" by linarith
  then have "\<not> 2 ^ 1024 \<le> y" "\<not> y \<le> - (2 ^ 1024)" by auto
  then have "fl x = Fin y"
    using False unfolding fl_def u_def [symmetric] Let_def y_def [symmetric] by simp
  with err show ?thesis
    by (intro exI [of _ "y - x"]) simp
qed

subsection \<open>The scale converters\<close>

lemma rint_numeral: "rint (numeral n) = numeral n" "rint 0 = 0" "rint 1 = 1"
  by (simp_all add: rint_def)

lemma fl_literals:
  "fl 1 = Fin 1" "fl 20 = Fin 20" "fl 60 = Fin 60" "fl 249 = Fin 249"
  "fl 80 = Fin 80" "fl 250 = Fin 250"
  using fl_eval [of 0 1] fl_eval [of 4 20] fl_eval [of 5 60] fl_eval [of 7 249]
    fl_eval [of 6 80] fl_eval [of 7 250]
  by (simp_all add: rint_numeral)

lemma to_float_literals:
  "to_float (PyInt 1) = Inr (Some (Fin 1))" "to_float (PyInt 20) = Inr (Some (Fin 20))"
  "to_float (PyInt 60) = Inr (Some (Fin 60))" "to_float (PyInt 249) = Inr (Some (Fin 249))"
  by (simp_all add: to_float_def fl_literals)

lemma to_float_float: "to_float (PyFloat x) = Inr x"
  by (simp add: to_float_def)

text \<open>With a float argument each step is a float operation, and nothing raises.\<close>

lemma convert_babip_to_ui_float:
  "convert_babip_to_ui (PyFloat x)
     = Inr (PyFloat (fadd (Some (Fin 20))
         (fdiv (fmul (fsub x (Some (Fin 1))) (Some (Fin 60))) (Some (Fin 249)))))"
  by (simp add: convert_babip_to_ui_def py_sub_def py_mul_def py_truediv_def py_add_def
      float_op_def to_float_literals to_float_float)

lemma convert_babip_to_editor_float:
  "convert_babip_to_editor (PyFloat x)
     = Inr (PyFloat (fadd (Some (Fin 1))
         (fdiv (fmul (fsub x (Some (Fin 20))) (Some (Fin 249))) (Some (Fin 60)))))"
  by (simp add: convert_babip_to_editor_def py_sub_def py_mul_def py_truediv_def py_add_def
      float_op_def to_float_literals to_float_float)

lemma convert_babip_to_ui_fin:
  assumes "fl (x - 1) = Fin a" "fl (a * 60) = Fin b" "fl (b / 249) = Fin c"
    and "fl (20 + c) = Fin d"
  shows "convert_babip_to_ui (PyFloat (Some (Fin x))) = Inr (PyFloat (Some (Fin d)))"
  unfolding convert_babip_to_ui_float
  by (simp add: fsub_def fadd_def fmul_def fdiv_def assms)

lemma convert_babip_to_editor_fin:
  assumes "fl (x - 20) = Fin a" "fl (a * 249) = Fin b" "fl (b / 60) = Fin c"
    and "fl (1 + c) = Fin d"
  shows "convert_babip_to_editor (PyFloat (Some (Fin x))) = Inr (PyFloat (Some (Fin d)))"
  unfolding convert_babip_to_editor_float
  by (simp add: fsub_def fadd_def fmul_def fdiv_def assms)

text \<open>The specification's maps are inverse to each other, and affine.\<close>

lemma spec_inverse:
  "ui_to_editor (editor_to_ui v) = v" "editor_to_ui (ui_to_editor u) = u"
  unfolding editor_to_ui_def ui_to_editor_def by (simp_all add: field_simps)

text \<open>The distance of the converters from the maps of the specification.\<close>

lemma fl_error_numeral:
  assumes "\<bar>x\<bar> \<le> 65536"
  obtains e where "fl x = Fin (x + e)" "\<bar>e\<bar> \<le> 1 / 137438953472"
proof -
  from fl_error [OF assms] obtain e where "fl x = Fin (x + e)" "\<bar>e\<bar> \<le> 1 / 2 ^ 37"
    by blast
  then show thesis by (intro that [of e]) simp_all
qed

lemma convert_babip_to_ui_error:
  assumes "\<bar>x\<bar> \<le> 1000"
  shows "\<exists>u. convert_babip_to_ui (PyFloat (Some (Fin x))) = Inr (PyFloat (Some (Fin u)))
           \<and> \<bar>u - editor_to_ui x\<bar> \<le> 3 / 2 ^ 37"
proof -
  have d: "(1::real) / 137438953472 \<le> 1 / 1000" by simp
  from assms have "\<bar>x - 1\<bar> \<le> 65536" by simp
  from this obtain e1 where
    1: "fl (x - 1) = Fin (x - 1 + e1)" "\<bar>e1\<bar> \<le> 1 / 137438953472"
    by (rule fl_error_numeral)
  define a where "a = x - 1 + e1"
  from assms 1(2) d have "\<bar>a * 60\<bar> \<le> 65536" unfolding a_def by argo
  from this obtain e2 where
    2: "fl (a * 60) = Fin (a * 60 + e2)" "\<bar>e2\<bar> \<le> 1 / 137438953472"
    by (rule fl_error_numeral)
  define b where "b = a * 60 + e2"
  from assms 1(2) 2(2) d have "\<bar>b / 249\<bar> \<le> 65536" unfolding a_def b_def by argo
  from this obtain e3 where
    3: "fl (b / 249) = Fin (b / 249 + e3)" "\<bar>e3\<bar> \<le> 1 / 137438953472"
    by (rule fl_error_numeral)
  define c where "c = b / 249 + e3"
  from assms 1(2) 2(2) 3(2) d have "\<bar>20 + c\<bar> \<le> 65536"
    unfolding a_def b_def c_def by argo
  from this obtain e4 where
    4: "fl (20 + c) = Fin (20 + c + e4)" "\<bar>e4\<bar> \<le> 1 / 137438953472"
    by (rule fl_error_numeral)
  have "convert_babip_to_ui (PyFloat (Some (Fin x))) = Inr (PyFloat (Some (Fin (20 + c + e4))))"
    using 1(1) 2(1) 3(1) 4(1) unfolding a_def [symmetric] b_def [symmetric] c_def [symmetric]
    by (rule convert_babip_to_ui_fin)
  moreover have "20 + c + e4 - editor_to_ui x = (60 * e1 + e2) / 249 + e3 + e4"
    unfolding editor_to_ui_def a_def b_def c_def by (simp add: field_simps)
  then have "\<bar>20 + c + e4 - editor_to_ui x\<bar> \<le> 3 / 137438953472"
    using 1(2) 2(2) 3(2) 4(2) by argo
  then have "\<bar>20 + c + e4 - editor_to_ui x\<bar> \<le> 3 / 2 ^ 37" by simp
  ultimately show ?thesis by blast
qed

lemma convert_babip_to_editor_error:
  assumes "\<bar>x\<bar> \<le> 240"
  shows "\<exists>v. convert_babip_to_editor (PyFloat (Some (Fin x))) = Inr (PyFloat (Some (Fin v)))
           \<and> \<bar>v - ui_to_editor x\<bar> \<le> 7 / 2 ^ 37"
proof -
  have d: "(1::real) / 137438953472 \<le> 1 / 1000" by simp
  from assms have "\<bar>x - 20\<bar> \<le> 65536" by simp
  from this obtain e1 where
    1: "fl (x - 20) = Fin (x - 20 + e1)" "\<bar>e1\<bar> \<le> 1 / 137438953472"
    by (rule fl_error_numeral)
  define a where "a = x - 20 + e1"
  from assms 1(2) d have "\<bar>a * 249\<bar> \<le> 65536" unfolding a_def by argo
  from this obtain e2 where
    2: "fl (a * 249) = Fin (a * 249 + e2)" "\<bar>e2\<bar> \<le> 1 / 137438953472"
    by (rule fl_error_numeral)
  define b where "b = a * 249 + e2"
  from assms 1(2) 2(2) d have "\<bar>b / 60\<bar> \<le> 65536" unfolding a_def b_def by argo
  from this obtain e3 where
    3: "fl (b / 60) = Fin (b / 60 + e3)" "\<bar>e3\<bar> \<le> 1 / 137438953472"
    by (rule fl_error_numeral)
  define c where "c = b / 60 + e3"
  from assms 1(2) 2(2) 3(2) d have "\<bar>1 + c\<bar> \<le> 65536"
    unfolding a_def b_def c_def by argo
  from this obtain e4 where
    4: "fl (1 + c) = Fin (1 + c + e4)" "\<bar>e4\<bar> \<le> 1 / 137438953472"
    by (rule fl_error_numeral)
  have "convert_babip_to_editor (PyFloat (Some (Fin x)))
      = Inr (PyFloat (Some (Fin (1 + c + e4))))"
    using 1(1) 2(1) 3(1) 4(1) unfolding a_def [symmetric] b_def [symmetric] c_def [symmetric]
    by (rule convert_babip_to_editor_fin)
  moreover have "1 + c + e4 - ui_to_editor x = (249 * e1 + e2) / 60 + e3 + e4"
    unfolding ui_to_editor_def a_def b_def c_def by (simp add: field_simps)
  then have "\<bar>1 + c + e4 - ui_to_editor x\<bar> \<le> 7 / 137438953472"
    using 1(2) 2(2) 3(2) 4(2) by argo
  then have "\<bar>1 + c + e4 - ui_to_editor x\<bar> \<le> 7 / 2 ^ 37" by simp
  ultimately show ?thesis by blast
qed

lemma editor_to_ui_range: "1 \<le> x \<Longrightarrow> x \<le> 250 \<Longrightarrow> 20 \<le> editor_to_ui x \<and> editor_to_ui x \<le> 80"
  unfolding editor_to_ui_def by argo

lemma ui_to_editor_range: "20 \<le> x \<Longrightarrow> x \<le> 80 \<Longrightarrow> 1 \<le> ui_to_editor x \<and> ui_to_editor x \<le> 250"
  unfolding ui_to_editor_def by argo

lemma ui_to_editor_diff: "ui_to_editor u - v = (u - editor_to_ui v) * 249 / 60"
  unfolding editor_to_ui_def ui_to_editor_def by (simp add: field_simps)

lemma editor_to_ui_diff: "editor_to_ui v - u = (v - ui_to_editor u) * 60 / 249"
  unfolding editor_to_ui_def ui_to_editor_def by (simp add: field_simps)

lemma round_trip_editor:
  assumes "1 \<le> x" "x \<le> 250"
  shows "\<exists>u y. convert_babip_to_ui (PyFloat (Some (Fin x))) = Inr (PyFloat (Some (Fin u)))
      \<and> convert_babip_to_editor (PyFloat (Some (Fin u))) = Inr (PyFloat (Some (Fin y)))
      \<and> \<bar>y - x\<bar> \<le> 1 / 10 ^ 9"
proof -
  from assms have "\<bar>x\<bar> \<le> 1000" by simp
  from convert_babip_to_ui_error [OF this] obtain u where
    u: "convert_babip_to_ui (PyFloat (Some (Fin x))) = Inr (PyFloat (Some (Fin u)))"
    "\<bar>u - editor_to_ui x\<bar> \<le> 3 / 2 ^ 37" by blast
  from u(2) have ub: "\<bar>u - editor_to_ui x\<bar> \<le> 3 / 137438953472" by simp
  with editor_to_ui_range [OF assms] have "\<bar>u\<bar> \<le> 240" by argo
  from convert_babip_to_editor_error [OF this] obtain y where
    y: "convert_babip_to_editor (PyFloat (Some (Fin u))) = Inr (PyFloat (Some (Fin y)))"
    "\<bar>y - ui_to_editor u\<bar> \<le> 7 / 2 ^ 37" by blast
  from y(2) have yb: "\<bar>y - ui_to_editor u\<bar> \<le> 7 / 137438953472" by simp
  define d where "d = u - editor_to_ui x"
  have "ui_to_editor u - x = d * 249 / 60"
    unfolding d_def by (rule ui_to_editor_diff)
  with ub yb have "\<bar>y - x\<bar> \<le> 1 / 1000000000"
    unfolding d_def [symmetric] by argo
  then have "\<bar>y - x\<bar> \<le> 1 / 10 ^ 9" by simp
  with u(1) y(1) show ?thesis by blast
qed

lemma round_trip_ui:
  assumes "20 \<le> x" "x \<le> 80"
  shows "\<exists>v y. convert_babip_to_editor (PyFloat (Some (Fin x))) = Inr (PyFloat (Some (Fin v)))
      \<and> convert_babip_to_ui (PyFloat (Some (Fin v))) = Inr (PyFloat (Some (Fin y)))
      \<and> \<bar>y - x\<bar> \<le> 1 / 10 ^ 9"
proof -
  from assms have "\<bar>x\<bar> \<le> 240" by simp
  from convert_babip_to_editor_error [OF this] obtain v where
    v: "convert_babip_to_editor (PyFloat (Some (Fin x))) = Inr (PyFloat (Some (Fin v)))"
    "\<bar>v - ui_to_editor x\<bar> \<le> 7 / 2 ^ 37" by blast
  from v(2) have vb: "\<bar>v - ui_to_editor x\<bar> \<le> 7 / 137438953472" by simp
  with ui_to_editor_range [OF assms] have "\<bar>v\<bar> \<le> 1000" by argo
  from convert_babip_to_ui_error [OF this] obtain y where
    y: "convert_babip_to_ui (PyFloat (Some (Fin v))) = Inr (PyFloat (Some (Fin y)))"
    "\<bar>y - editor_to_ui v\<bar> \<le> 3 / 2 ^ 37" by blast
  from y(2) have yb: "\<bar>y - editor_to_ui v\<bar> \<le> 3 / 137438953472" by simp
  define d where "d = v - ui_to_editor x"
  have "editor_to_ui v - x = d * 60 / 249"
    unfolding d_def by (rule editor_to_ui_diff)
  with vb yb have "\<bar>y - x\<bar> \<le> 1 / 1000000000"
    unfolding d_def [symmetric] by argo
  then have "\<bar>y - x\<bar> \<le> 1 / 10 ^ 9" by simp
  with v(1) y(1) show ?thesis by blast
qed

text \<open>
  C3, as the code has it. The two maps of the specification are inverse to each other
  on all the reals. The converters compute them in double arithmetic, with a rounding
  after each of the four operations: on the documented ranges, a float between 1 and
  250 converted to the UI scale and back, and a float between 20 and 80 converted to
  the editor scale and back, comes back within \<open>1e-9\<close>.
\<close>

theorem babip_round_trip:
  "ui_to_editor (editor_to_ui v) = v \<and> editor_to_ui (ui_to_editor v) = v
   \<and> (1 \<le> x \<and> x \<le> 250 \<longrightarrow>
        (\<exists>u y. convert_babip_to_ui (PyFloat (Some (Fin x))) = Inr (PyFloat (Some (Fin u)))
           \<and> convert_babip_to_editor (PyFloat (Some (Fin u))) = Inr (PyFloat (Some (Fin y)))
           \<and> \<bar>y - x\<bar> \<le> 1 / 10 ^ 9))
   \<and> (20 \<le> x \<and> x \<le> 80 \<longrightarrow>
        (\<exists>u y. convert_babip_to_editor (PyFloat (Some (Fin x))) = Inr (PyFloat (Some (Fin u)))
           \<and> convert_babip_to_ui (PyFloat (Some (Fin u))) = Inr (PyFloat (Some (Fin y)))
           \<and> \<bar>y - x\<bar> \<le> 1 / 10 ^ 9))"
  using spec_inverse [of v] round_trip_editor [of x] round_trip_ui [of x] by blast

theorem babip_round_trip_witness:
  "(1::real) \<le> 50 \<and> (50::real) \<le> 250 \<and> (20::real) \<le> 50 \<and> (50::real) \<le> 80
   \<and> (\<exists>u y. convert_babip_to_ui (PyFloat (Some (Fin 50))) = Inr (PyFloat (Some (Fin u)))
         \<and> convert_babip_to_editor (PyFloat (Some (Fin u))) = Inr (PyFloat (Some (Fin y)))
         \<and> \<bar>y - 50\<bar> \<le> 1 / 10 ^ 9)
   \<and> (\<exists>u y. convert_babip_to_editor (PyFloat (Some (Fin 50))) = Inr (PyFloat (Some (Fin u)))
         \<and> convert_babip_to_ui (PyFloat (Some (Fin u))) = Inr (PyFloat (Some (Fin y)))
         \<and> \<bar>y - 50\<bar> \<le> 1 / 10 ^ 9)"
  using babip_round_trip [of 50 50] by simp

lemma fl_steps_ui:
  "fl (8703152 - 1) = Fin 8703151"
  "fl (8703151 * 60) = Fin 522189060"
  "fl (522189060 / 249) = Fin (9007168413771011 / 4294967296)"
  "fl (20 + 9007168413771011 / 4294967296) = Fin (2251813578279233 / 1073741824)"
  using fl_eval [of 23 "8703152 - 1"] fl_eval [of 28 "8703151 * 60"]
    fl_eval [of 20 "522189060 / 249"] fl_eval [of 21 "20 + 9007168413771011 / 4294967296"]
  by (simp_all add: rint_def)

lemma fl_steps_editor:
  "fl (2251813578279233 / 1073741824 - 20) = Fin (2251792103442753 / 1073741824)"
  "fl (2251792103442753 / 1073741824 * 249) = Fin (8760878652456961 / 16777216)"
  "fl (8760878652456961 / 16777216 / 60) = Fin (4672468614643713 / 536870912)"
  "fl (1 + 4672468614643713 / 536870912) = Fin (4672469151514625 / 536870912)"
  using fl_eval [of 20 "2251813578279233 / 1073741824 - 20"]
    fl_eval [of 28 "2251792103442753 / 1073741824 * 249"]
    fl_eval [of 23 "8760878652456961 / 16777216 / 60"]
    fl_eval [of 23 "1 + 4672468614643713 / 536870912"]
  by (simp_all add: rint_def)

text \<open>
  C3 as stated fails: the round trip is not within \<open>1e-9\<close> for every value. The float
  8703152.0 goes to \<open>2251813578279233 / 2 ^ 30\<close> on the UI scale and comes back as
  \<open>8703152 + 1 / 2 ^ 29\<close>, which is off by more than \<open>1.8e-9\<close>.
\<close>

theorem round_trip_counterexample:
  "convert_babip_to_ui (PyFloat (Some (Fin 8703152)))
     = Inr (PyFloat (Some (Fin (2251813578279233 / 1073741824))))
   \<and> convert_babip_to_editor (PyFloat (Some (Fin (2251813578279233 / 1073741824))))
     = Inr (PyFloat (Some (Fin (4672469151514625 / 536870912))))
   \<and> 1 / 10 ^ 9 < \<bar>4672469151514625 / 536870912 - (8703152::real)\<bar>"
proof -
  have "convert_babip_to_ui (PyFloat (Some (Fin 8703152)))
     = Inr (PyFloat (Some (Fin (2251813578279233 / 1073741824))))"
    using fl_steps_ui by (rule convert_babip_to_ui_fin)
  moreover have "convert_babip_to_editor (PyFloat (Some (Fin (2251813578279233 / 1073741824))))
     = Inr (PyFloat (Some (Fin (4672469151514625 / 536870912))))"
    using fl_steps_editor by (rule convert_babip_to_editor_fin)
  moreover have "1 / 10 ^ 9 < \<bar>4672469151514625 / 536870912 - (8703152::real)\<bar>"
    by simp
  ultimately show ?thesis by (simp only: simp_thms)
qed

subsection \<open>No clamping, and where a converter raises\<close>










end
